theory Spec2Isabelle
  imports Main
begin

section \<open>Python values, errors and the string operations the integrations use\<close>

text \<open>
  The integrations are Python. Exceptions are values: a computation that may raise has the
  type \<open>py_error + 'a\<close>, with \<open>Inl\<close> the exception. Strings are \<open>string\<close>
  (the device names, button names and telnet lines handled here are ASCII text).
\<close>

datatype py_error = KeyError | IndexError | ValueError | TypeError | StructError

text \<open>Sequencing of computations that may raise: the first exception ends the run.\<close>

definition ebind :: "py_error + 'a \<Rightarrow> ('a \<Rightarrow> py_error + 'b) \<Rightarrow> py_error + 'b" where
  "ebind m f = (case m of Inl e \<Rightarrow> Inl e | Inr v \<Rightarrow> f v)"

text \<open>\<^verbatim>\<open>xs[i]\<close>: negative indices count from the end, out of range raises IndexError.\<close>

definition py_index :: "'a list \<Rightarrow> int \<Rightarrow> py_error + 'a" where
  "py_index xs i =
     (let j = (if i < 0 then i + int (length xs) else i)
      in if 0 \<le> j \<and> j < int (length xs) then Inr (xs ! nat j) else Inl IndexError)"

text \<open>\<^verbatim>\<open>s.startswith(p)\<close>.\<close>

definition py_startswith :: "string \<Rightarrow> string \<Rightarrow> bool" where
  "py_startswith s p = (take (length p) s = p)"

text \<open>\<^verbatim>\<open>sub in s\<close> on strings: \<open>sub\<close> occurs in \<open>s\<close> as a contiguous substring.\<close>

fun py_in :: "string \<Rightarrow> string \<Rightarrow> bool" where
  "py_in sub [] = (sub = [])"
| "py_in sub (c # cs) = (py_startswith (c # cs) sub \<or> py_in sub cs)"

text \<open>
  \<^verbatim>\<open>s.split(sep, maxsplit)\<close> for a separator of one character: at most \<open>maxsplit\<close>
  splits are made, from the left; a negative \<open>maxsplit\<close> (Python's default is \<open>-1\<close>)
  means no limit. The result is never empty.
\<close>

fun py_split :: "char \<Rightarrow> int \<Rightarrow> string \<Rightarrow> string list" where
  "py_split sep maxsplit [] = [[]]"
| "py_split sep maxsplit (c # cs) =
     (if c = sep \<and> maxsplit \<noteq> 0 then [] # py_split sep (maxsplit - 1) cs
      else (case py_split sep maxsplit cs of
              w # ws \<Rightarrow> (c # w) # ws
            | [] \<Rightarrow> [[c]]))"

text \<open>\<^verbatim>\<open>s[lo:hi]\<close> for constant bounds \<open>0 \<le> lo \<le> hi\<close>: the slice is cut at the end of \<open>s\<close>.\<close>

definition py_slice :: "string \<Rightarrow> nat \<Rightarrow> nat \<Rightarrow> string" where
  "py_slice s lo hi = take (hi - lo) (drop lo s)"

text \<open>
  The values held in the vendor libraries' device dictionaries that the code below reads:
  \<^verbatim>\<open>None\<close>, integers and strings. \<open>=\<close> on \<open>pyval\<close> is Python's \<^verbatim>\<open>==\<close> on these
  (an integer never equals a string). A dictionary is a map; \<^verbatim>\<open>d[k]\<close> raises KeyError
  on a missing key, \<^verbatim>\<open>k in d\<close> is \<open>py_contains\<close>.
\<close>

datatype pyval = PNone | PInt int | PStr string

type_synonym pydict = "string \<rightharpoonup> pyval"

definition py_getitem :: "('k \<rightharpoonup> 'v) \<Rightarrow> 'k \<Rightarrow> py_error + 'v" where
  "py_getitem d k = (case d k of None \<Rightarrow> Inl KeyError | Some v \<Rightarrow> Inr v)"

definition py_contains :: "('k \<rightharpoonup> 'v) \<Rightarrow> 'k \<Rightarrow> bool" where
  "py_contains d k = (d k \<noteq> None)"

text \<open>A value used where the code needs a string (\<^verbatim>\<open>"_" in v\<close>): anything else raises TypeError.\<close>

definition as_str :: "pyval \<Rightarrow> py_error + string" where
  "as_str v = (case v of PStr s \<Rightarrow> Inr s | _ \<Rightarrow> Inl TypeError)"

text \<open>\<^verbatim>\<open>str(n)\<close> for an integer: decimal digits, with a minus sign when negative.\<close>

function str_of_nat :: "nat \<Rightarrow> string" where
  "str_of_nat n =
     (if n < 10 then [''0123456789'' ! n]
      else str_of_nat (n div 10) @ [''0123456789'' ! (n mod 10)])"
  by pat_completeness auto
termination
  by (relation "measure id") auto

declare str_of_nat.simps [simp del]

definition str_of_int :: "int \<Rightarrow> string" where
  "str_of_int i = (if i < 0 then CHR ''-'' # str_of_nat (nat (- i)) else str_of_nat (nat i))"

text \<open>\<^verbatim>\<open>str(v)\<close>, which is also how an f-string formats \<^verbatim>\<open>{v}\<close>.\<close>

definition py_str :: "pyval \<Rightarrow> string" where
  "py_str v = (case v of PNone \<Rightarrow> ''None'' | PInt i \<Rightarrow> str_of_int i | PStr s \<Rightarrow> s)"

text \<open>
  \<^verbatim>\<open>int(s)\<close> for an ASCII string, base 10: surrounding ASCII whitespace (space, tab,
  newline, vertical tab, form feed, carriage return) is dropped, one sign may follow, and
  then come decimal digits, where single underscores may stand between two digits.
  Anything else raises ValueError. \<^verbatim>\<open>int(i)\<close> of an integer is \<open>i\<close>, \<^verbatim>\<open>int(None)\<close>
  raises TypeError.
\<close>

definition is_space :: "char \<Rightarrow> bool" where
  "is_space c = (c \<in> set [CHR '' '', CHR 0x09, CHR 0x0A, CHR 0x0B, CHR 0x0C, CHR 0x0D])"

definition is_digit :: "char \<Rightarrow> bool" where
  "is_digit c = (48 \<le> (of_char c :: nat) \<and> (of_char c :: nat) \<le> 57)"

definition digit_val :: "char \<Rightarrow> int" where
  "digit_val c = int (of_char c) - 48"

definition strip_space :: "string \<Rightarrow> string" where
  "strip_space s = rev (dropWhile is_space (rev (dropWhile is_space s)))"

fun digits_ok :: "string \<Rightarrow> bool" where
  "digits_ok [] = False"
| "digits_ok [c] = is_digit c"
| "digits_ok (c # d # cs) =
     (is_digit c \<and> (if d = CHR ''_'' then digits_ok cs else digits_ok (d # cs)))"

definition digits_value :: "string \<Rightarrow> int" where
  "digits_value s = foldl (\<lambda>acc c. acc * 10 + digit_val c) 0 (filter is_digit s)"

definition py_int_of_str :: "string \<Rightarrow> py_error + int" where
  "py_int_of_str s =
     (let t = strip_space s;
          negative = (t \<noteq> [] \<and> hd t = CHR ''-'');
          body = (if t \<noteq> [] \<and> (hd t = CHR ''-'' \<or> hd t = CHR ''+'') then tl t else t)
      in if digits_ok body
         then Inr (if negative then - digits_value body else digits_value body)
         else Inl ValueError)"

definition py_int :: "pyval \<Rightarrow> py_error + int" where
  "py_int v = (case v of PInt i \<Rightarrow> Inr i | PStr s \<Rightarrow> py_int_of_str s | PNone \<Rightarrow> Inl TypeError)"

section \<open>lutron\_hwqsx: area and name of a device\<close>

text \<open>\<^verbatim>\<open>const.py\<close>\<close>

definition DOMAIN :: string where
  "DOMAIN = ''lutron_hwqsx''"

definition MANUFACTURER :: string where
  "MANUFACTURER = ''Lutron Electronics Co., Inc''"

definition UNASSIGNED_AREA :: string where
  "UNASSIGNED_AREA = ''Unassigned''"

text \<open>
  \<^verbatim>\<open>__init__.py\<close>:
  \<^verbatim>\<open>
  def _area_and_name_from_name(device_name: str) -> tuple[str, str]:
      if "_" in device_name:
          area_device_name = device_name.split("_", 1)
          return area_device_name[0], area_device_name[1]
      return UNASSIGNED_AREA, device_name
  \<close>
\<close>

definition area_and_name_from_name :: "string \<Rightarrow> py_error + (string \<times> string)" where
  "area_and_name_from_name device_name =
     (if py_in ''_'' device_name then
        (let area_device_name = py_split (CHR ''_'') 1 device_name
         in ebind (py_index area_device_name 0) (\<lambda>area.
            ebind (py_index area_device_name 1) (\<lambda>name.
            Inr (area, name))))
      else Inr (UNASSIGNED_AREA, device_name))"

text \<open>\<^verbatim>\<open>binary_sensor.py\<close>: \<^verbatim>\<open>_button_area_and_name_from_name\<close>, a private copy.\<close>

definition button_area_and_name_from_name :: "string \<Rightarrow> py_error + (string \<times> string)" where
  "button_area_and_name_from_name device_name =
     (if py_in ''_'' device_name then
        (let area_device_name = py_split (CHR ''_'') 1 device_name
         in ebind (py_index area_device_name 0) (\<lambda>area.
            ebind (py_index area_device_name 1) (\<lambda>name.
            Inr (area, name))))
      else Inr (UNASSIGNED_AREA, device_name))"

text \<open>\<^verbatim>\<open>button.py\<close>: its own \<^verbatim>\<open>_area_and_name_from_name\<close>, a second private copy.\<close>

definition area_and_name_from_name_button_py :: "string \<Rightarrow> py_error + (string \<times> string)" where
  "area_and_name_from_name_button_py device_name =
     (if py_in ''_'' device_name then
        (let area_device_name = py_split (CHR ''_'') 1 device_name
         in ebind (py_index area_device_name 0) (\<lambda>area.
            ebind (py_index area_device_name 1) (\<lambda>name.
            Inr (area, name))))
      else Inr (UNASSIGNED_AREA, device_name))"

section \<open>lutron\_hwqsx: \<^verbatim>\<open>__init__.py\<close>\<close>

text \<open>
  Keys of the device dictionaries. \<^verbatim>\<open>ATTR_SERIAL\<close> is in \<^verbatim>\<open>const.py\<close>, the button keys
  are module constants of \<^verbatim>\<open>__init__.py\<close>; \<^verbatim>\<open>ATTR_DEVICE_ID\<close>, \<^verbatim>\<open>ATTR_NAME\<close>,
  \<^verbatim>\<open>ATTR_MODEL\<close> and \<^verbatim>\<open>ATTR_TYPE\<close> are the host's constants \<^verbatim>\<open>"device_id"\<close>,
  \<^verbatim>\<open>"name"\<close>, \<^verbatim>\<open>"model"\<close> and \<^verbatim>\<open>"type"\<close>.
\<close>

definition ATTR_SERIAL :: string where
  "ATTR_SERIAL = ''serial''"

definition ATTR_DEVICE_ID :: string where
  "ATTR_DEVICE_ID = ''device_id''"

definition ATTR_NAME :: string where
  "ATTR_NAME = ''name''"

definition ATTR_MODEL :: string where
  "ATTR_MODEL = ''model''"

definition ATTR_TYPE :: string where
  "ATTR_TYPE = ''type''"

definition ATTR_CONTROL_STATION_NAME :: string where
  "ATTR_CONTROL_STATION_NAME = ''control_station_name''"

definition ATTR_BUTTON_GROUP :: string where
  "ATTR_BUTTON_GROUP = ''button_group''"

definition ATTR_BUTTON_NAME :: string where
  "ATTR_BUTTON_NAME = ''button_name''"

definition SEETOUCH_BUTTON_NAME_DEFAULT_PATTERN :: string where
  "SEETOUCH_BUTTON_NAME_DEFAULT_PATTERN = ''Button ''"

definition SEETOUCH_BUTTON_NAME_LOWER :: string where
  "SEETOUCH_BUTTON_NAME_LOWER = ''Button 18''"

definition SEETOUCH_BUTTON_NAME_RAISE :: string where
  "SEETOUCH_BUTTON_NAME_RAISE = ''Button 19''"

definition QSX_KEYPADS :: "string set" where
  "QSX_KEYPADS = {''SeeTouchHybridKeypad'', ''HomeownerKeypad'', ''SeeTouchTabletopKeypad'',
     ''Pico3ButtonRaiseLower''}"

text \<open>\<^verbatim>\<open>v in QSX_KEYPADS\<close>: only a string can be a member of a set of strings.\<close>

definition in_QSX_KEYPADS :: "pyval \<Rightarrow> bool" where
  "in_QSX_KEYPADS v = (case v of PStr s \<Rightarrow> s \<in> QSX_KEYPADS | _ \<Rightarrow> False)"

subsection \<open>The unique-id migrator\<close>

text \<open>
  \<^verbatim>\<open>_async_migrator\<close>, the callback inside \<^verbatim>\<open>_async_migrate_unique_ids\<close>. The device
  registry belongs to the host: its state is \<open>'reg\<close>, and its two operations
  \<^verbatim>\<open>async_get_device\<close> and \<^verbatim>\<open>async_update_device\<close> are parameters. The bridge's
  unique id is \<^verbatim>\<open>entry.unique_id\<close>, a string or \<^verbatim>\<open>None\<close>, formatted into the prefix by
  an f-string. The result is the \<^verbatim>\<open>new_unique_id\<close> of the returned dictionary, or
  \<open>None\<close>, with the registry as the callback leaves it.
\<close>

definition async_migrator ::
  "('reg \<Rightarrow> (string \<times> string) set \<Rightarrow> 'dev option) \<Rightarrow>
   ('reg \<Rightarrow> 'dev \<Rightarrow> (string \<times> string) set \<Rightarrow> 'reg) \<Rightarrow>
   pyval \<Rightarrow> 'reg \<Rightarrow> string \<Rightarrow> (py_error + string option) \<times> 'reg" where
  "async_migrator async_get_device async_update_device bridge_unique_id dev_reg unique_id =
     (if unique_id = [] then (Inr None, dev_reg)
      else if \<not> py_startswith unique_id ''occupancygroup_''
              \<or> py_startswith unique_id (''occupancygroup_'' @ py_str bridge_unique_id)
      then (Inr None, dev_reg)
      else (case py_index (py_split (CHR ''_'') (- 1) unique_id) 1 of
              Inl e \<Rightarrow> (Inl e, dev_reg)
            | Inr sensor_id \<Rightarrow>
                (let new_unique_id = ''occupancygroup_'' @ py_str bridge_unique_id @ ''_'' @ sensor_id;
                     dev_reg' = (case async_get_device dev_reg {(DOMAIN, unique_id)} of
                                   Some dev_entry \<Rightarrow>
                                     async_update_device dev_reg dev_entry {(DOMAIN, new_unique_id)}
                                 | None \<Rightarrow> dev_reg)
                 in (Inr (Some (''occupancygroup_'' @ py_str bridge_unique_id @ ''_'' @ sensor_id)),
                     dev_reg'))))"

text \<open>
  What the host's \<^verbatim>\<open>async_migrate_entries\<close> does with one entity entry: the entry takes
  the new unique id when the callback returns one and keeps its own otherwise.
\<close>

definition migrate_entry ::
  "('reg \<Rightarrow> (string \<times> string) set \<Rightarrow> 'dev option) \<Rightarrow>
   ('reg \<Rightarrow> 'dev \<Rightarrow> (string \<times> string) set \<Rightarrow> 'reg) \<Rightarrow>
   pyval \<Rightarrow> 'reg \<times> string \<Rightarrow> py_error + ('reg \<times> string)" where
  "migrate_entry async_get_device async_update_device bridge_unique_id st =
     (case async_migrator async_get_device async_update_device bridge_unique_id (fst st) (snd st) of
        (Inl e, dev_reg) \<Rightarrow> Inl e
      | (Inr None, dev_reg) \<Rightarrow> Inr (dev_reg, snd st)
      | (Inr (Some new_unique_id), dev_reg) \<Rightarrow> Inr (dev_reg, new_unique_id))"

subsection \<open>Registering the button devices\<close>

text \<open>The keyword arguments passed to the registry's \<^verbatim>\<open>async_get_or_create\<close>.\<close>

record device_args =
  arg_name :: string
  arg_manufacturer :: string
  arg_config_entry_id :: string
  arg_identifiers :: "(string \<times> pyval) set"
  arg_model :: string
  arg_via_device :: "string \<times> pyval"
  arg_suggested_area :: "string option"

text \<open>
  The first statement of the loop body of \<^verbatim>\<open>_async_register_button_devices\<close>:
  \<^verbatim>\<open>
  if ATTR_SERIAL not in device and ATTR_BUTTON_GROUP in device:
      device[ATTR_SERIAL] = int(device[ATTR_BUTTON_GROUP])
  \<close>
\<close>

definition ensure_serial :: "pydict \<Rightarrow> py_error + pydict" where
  "ensure_serial device =
     (if \<not> py_contains device ATTR_SERIAL \<and> py_contains device ATTR_BUTTON_GROUP then
        ebind (py_getitem device ATTR_BUTTON_GROUP) (\<lambda>button_group.
        ebind (py_int button_group) (\<lambda>i.
        Inr (device(ATTR_SERIAL \<mapsto> PInt i))))
      else Inr device)"

text \<open>
  The rest of the loop body, from the test of the device type to the finished
  \<^verbatim>\<open>device_args\<close>:
  \<^verbatim>\<open>
  if device['type'] in QSX_KEYPADS:
      button_group = device[ATTR_BUTTON_GROUP]
      parent_device = button_group_to_device_map[button_group]
      hass_device_id = parent_device[ATTR_DEVICE_ID]
  else:
      hass_device_id = device[ATTR_SERIAL]
  area, name = _area_and_name_from_name(device["name"])
  device_args = {"name": f"{area} {name}", "manufacturer": MANUFACTURER,
      "config_entry_id": config_entry_id, "identifiers": {(DOMAIN, hass_device_id)},
      "model": f"{device['model']} ({device['type']})",
      "via_device": (DOMAIN, bridge_device[ATTR_SERIAL])}
  if area != UNASSIGNED_AREA:
      device_args["suggested_area"] = area
  \<close>
\<close>

definition button_device_args ::
  "string \<Rightarrow> pydict \<Rightarrow> (pyval \<rightharpoonup> pydict) \<Rightarrow> pydict \<Rightarrow> py_error + device_args" where
  "button_device_args config_entry_id bridge_device button_group_to_device_map device =
     ebind (py_getitem device ''type'') (\<lambda>device_type.
     ebind (if in_QSX_KEYPADS device_type then
              ebind (py_getitem device ATTR_BUTTON_GROUP) (\<lambda>button_group.
              ebind (py_getitem button_group_to_device_map button_group) (\<lambda>parent_device.
              py_getitem parent_device ATTR_DEVICE_ID))
            else py_getitem device ATTR_SERIAL) (\<lambda>hass_device_id.
     ebind (py_getitem device ''name'') (\<lambda>device_name.
     ebind (as_str device_name) (\<lambda>device_name.
     ebind (area_and_name_from_name device_name) (\<lambda>area_name.
     ebind (py_getitem device ''model'') (\<lambda>device_model.
     ebind (py_getitem device ''type'') (\<lambda>device_type.
     ebind (py_getitem bridge_device ATTR_SERIAL) (\<lambda>bridge_serial.
     Inr \<lparr>arg_name = fst area_name @ '' '' @ snd area_name,
          arg_manufacturer = MANUFACTURER,
          arg_config_entry_id = config_entry_id,
          arg_identifiers = {(DOMAIN, hass_device_id)},
          arg_model = py_str device_model @ '' ('' @ py_str device_type @ '')'',
          arg_via_device = (DOMAIN, bridge_serial),
          arg_suggested_area =
            (if fst area_name \<noteq> UNASSIGNED_AREA then Some (fst area_name) else None)\<rparr>))))))))"

text \<open>
  The loop of \<^verbatim>\<open>_async_register_button_devices\<close> over
  \<^verbatim>\<open>button_devices_by_id.values()\<close>. The registry is the host's: its state is \<open>'reg\<close>
  and \<^verbatim>\<open>async_get_or_create\<close> is a parameter that returns the new state and the id of
  the registry's device. \<open>seen\<close> is the set of serials met so far, and
  \<open>button_devices_by_dr_id\<close> the dictionary under construction. An exception leaves
  the registry as the earlier devices made it.
\<close>

fun register_button_devices_loop ::
  "('reg \<Rightarrow> device_args \<Rightarrow> 'reg \<times> string) \<Rightarrow> string \<Rightarrow> pydict \<Rightarrow> (pyval \<rightharpoonup> pydict) \<Rightarrow>
   pydict list \<Rightarrow> pyval set \<Rightarrow> (string \<rightharpoonup> pydict) \<Rightarrow> 'reg \<Rightarrow>
   (py_error + (string \<rightharpoonup> pydict)) \<times> 'reg" where
  "register_button_devices_loop async_get_or_create config_entry_id bridge_device
       button_group_to_device_map [] seen button_devices_by_dr_id device_registry =
     (Inr button_devices_by_dr_id, device_registry)"
| "register_button_devices_loop async_get_or_create config_entry_id bridge_device
       button_group_to_device_map (device # devices) seen button_devices_by_dr_id device_registry =
     (case ensure_serial device of
        Inl e \<Rightarrow> (Inl e, device_registry)
      | Inr device' \<Rightarrow>
          (case py_getitem device' ATTR_SERIAL of
             Inl e \<Rightarrow> (Inl e, device_registry)
           | Inr serial \<Rightarrow>
               if serial \<in> seen then
                 register_button_devices_loop async_get_or_create config_entry_id bridge_device
                   button_group_to_device_map devices seen button_devices_by_dr_id device_registry
               else
                 (case button_device_args config_entry_id bridge_device
                         button_group_to_device_map device' of
                    Inl e \<Rightarrow> (Inl e, device_registry)
                  | Inr args \<Rightarrow>
                      (case async_get_or_create device_registry args of
                         (device_registry', dr_device_id) \<Rightarrow>
                           register_button_devices_loop async_get_or_create config_entry_id
                             bridge_device button_group_to_device_map devices (insert serial seen)
                             (button_devices_by_dr_id(dr_device_id \<mapsto> device'))
                             device_registry'))))"

definition async_register_button_devices ::
  "('reg \<Rightarrow> device_args \<Rightarrow> 'reg \<times> string) \<Rightarrow> string \<Rightarrow> pydict \<Rightarrow> pydict list \<Rightarrow>
   (pyval \<rightharpoonup> pydict) \<Rightarrow> 'reg \<Rightarrow> (py_error + (string \<rightharpoonup> pydict)) \<times> 'reg" where
  "async_register_button_devices async_get_or_create config_entry_id bridge_device
       button_devices button_group_to_device_map device_registry =
     register_button_devices_loop async_get_or_create config_entry_id bridge_device
       button_group_to_device_map button_devices {} Map.empty device_registry"

text \<open>
  The devices for which the loop above reaches the registry call, in the order of the
  calls, read off the same tests: a device whose serial is already in \<open>seen\<close> is passed
  over, and the loop ends at a device for which the first statement raises or which has
  no serial.
\<close>

fun devices_to_register :: "pyval set \<Rightarrow> pydict list \<Rightarrow> pydict list" where
  "devices_to_register seen [] = []"
| "devices_to_register seen (device # devices) =
     (case ensure_serial device of
        Inl e \<Rightarrow> []
      | Inr device' \<Rightarrow>
          (case py_getitem device' ATTR_SERIAL of
             Inl e \<Rightarrow> []
           | Inr serial \<Rightarrow>
               if serial \<in> seen then devices_to_register seen devices
               else device # devices_to_register (insert serial seen) devices))"

subsection \<open>LIP button numbers\<close>

text \<open>
  \<^verbatim>\<open>async_get_lip_button\<close>. The two tables are defined in \<^verbatim>\<open>device_trigger.py\<close>;
  they are parameters here: \<^verbatim>\<open>DEVICE_TYPE_SUBTYPE_MAP_TO_LIP\<close> maps a device type to a
  dictionary from button names to LIP numbers, \<^verbatim>\<open>LEAP_TO_DEVICE_TYPE_SUBTYPE_MAP\<close> maps
  a device type to a dictionary from LEAP numbers to button names.
\<close>

definition async_get_lip_button ::
  "(string \<rightharpoonup> (string \<rightharpoonup> int)) \<Rightarrow> (string \<rightharpoonup> (int \<rightharpoonup> string)) \<Rightarrow>
   string \<Rightarrow> int \<Rightarrow> py_error + int option" where
  "async_get_lip_button DEVICE_TYPE_SUBTYPE_MAP_TO_LIP LEAP_TO_DEVICE_TYPE_SUBTYPE_MAP
       device_type leap_button =
     (case DEVICE_TYPE_SUBTYPE_MAP_TO_LIP device_type of
        None \<Rightarrow> Inr None
      | Some lip_buttons_name_to_num \<Rightarrow>
          (case LEAP_TO_DEVICE_TYPE_SUBTYPE_MAP device_type of
             None \<Rightarrow> Inr None
           | Some leap_button_num_to_name \<Rightarrow>
               ebind (py_getitem leap_button_num_to_name leap_button) (\<lambda>button_name.
               ebind (py_getitem lip_buttons_name_to_num button_name) (\<lambda>lip_button.
               Inr (Some lip_button)))))"

subsection \<open>The common entity class\<close>

text \<open>
  The device information of an entity: the fields of the host's \<^verbatim>\<open>DeviceInfo\<close> that the
  integration sets. A key that is not set is \<open>None\<close>.
\<close>

record device_info =
  info_identifiers :: "(string \<times> pyval) set"
  info_manufacturer :: string
  info_model :: string
  info_name :: string
  info_via_device :: "(string \<times> pyval) option"
  info_configuration_url :: "string option"
  info_suggested_area :: "string option"

definition CONFIG_URL :: string where
  "CONFIG_URL = ''https://device-login.lutron.com''"

text \<open>
  \<^verbatim>\<open>LutronCasetaDevice\<close>. The attributes that \<^verbatim>\<open>__init__\<close> assigns only for a device
  with a serial are optional: \<open>None\<close> is an attribute that was never assigned. The
  handle of the vendor's bridge object is not part of the model.
\<close>

record lutron_caseta_device =
  dev_device :: pydict
  dev_bridge_device :: pydict
  dev_bridge_unique_id :: "string option"
  dev_display_name :: "string option"
  dev_attr_name :: "string option"
  dev_attr_unique_id :: "pyval option"
  dev_attr_device_info :: "device_info option"

text \<open>
  \<^verbatim>\<open>_handle_none_serial\<close>:
  \<^verbatim>\<open>
  sret = serial
  if serial is None:
      sret=f"{self._bridge_unique_id}_{self.device_id}"
  if self._device.get("button_number") is not None:
      sret += '-' + self._device["button_number"]
  return sret
  \<close>
  where \<^verbatim>\<open>self.device_id\<close> is \<^verbatim>\<open>self._device["device_id"]\<close>. Adding a string to
  anything but a string raises TypeError.
\<close>

definition handle_none_serial :: "string \<Rightarrow> pydict \<Rightarrow> pyval \<Rightarrow> py_error + pyval" where
  "handle_none_serial bridge_unique_id device serial =
     ebind (if serial = PNone then
              ebind (py_getitem device ''device_id'') (\<lambda>device_id.
              Inr (PStr (bridge_unique_id @ ''_'' @ py_str device_id)))
            else Inr serial) (\<lambda>sret.
     (case device ''button_number'' of
        None \<Rightarrow> Inr sret
      | Some PNone \<Rightarrow> Inr sret
      | Some (PStr button_number) \<Rightarrow>
          (case sret of
             PStr s \<Rightarrow> Inr (PStr (s @ ''-'' @ button_number))
           | _ \<Rightarrow> Inl TypeError)
      | Some (PInt button_number) \<Rightarrow> Inl TypeError))"

text \<open>
  \<^verbatim>\<open>LutronCasetaDevice.__init__\<close>. \<^verbatim>\<open>serial_to_unique_id\<close> is defined in \<^verbatim>\<open>util.py\<close>
  and is a parameter.
  \<^verbatim>\<open>
  if "serial" not in self._device:
      return
  self._bridge_unique_id = serial_to_unique_id(bridge_device["serial"])
  area, name = _area_and_name_from_name(device["name"])
  self.display_name = f"{area} {name}"
  self._attr_name = self.display_name
  self._attr_unique_id = self.serial
  info = DeviceInfo(
      identifiers={(DOMAIN, self._handle_none_serial(self.serial))},
      manufacturer=MANUFACTURER,
      model=f"{device['model']} ({device['type']})",
      name=self.display_name,
      via_device=(DOMAIN, self._bridge_device["serial"]),
      configuration_url=CONFIG_URL)
  if area != UNASSIGNED_AREA:
      info[ATTR_SUGGESTED_AREA] = area
  self._attr_device_info = info
  \<close>
\<close>

definition LutronCasetaDevice_init ::
  "(pyval \<Rightarrow> py_error + string) \<Rightarrow> pydict \<Rightarrow> pydict \<Rightarrow> py_error + lutron_caseta_device" where
  "LutronCasetaDevice_init serial_to_unique_id device bridge_device =
     (if \<not> py_contains device ''serial'' then
        Inr \<lparr>dev_device = device, dev_bridge_device = bridge_device,
             dev_bridge_unique_id = None, dev_display_name = None, dev_attr_name = None,
             dev_attr_unique_id = None, dev_attr_device_info = None\<rparr>
      else
        ebind (py_getitem bridge_device ''serial'') (\<lambda>bridge_serial.
        ebind (serial_to_unique_id bridge_serial) (\<lambda>bridge_unique_id.
        ebind (py_getitem device ''name'') (\<lambda>device_name.
        ebind (as_str device_name) (\<lambda>device_name.
        ebind (area_and_name_from_name device_name) (\<lambda>area_name.
        ebind (py_getitem device ''serial'') (\<lambda>serial.
        ebind (handle_none_serial bridge_unique_id device serial) (\<lambda>identifier.
        ebind (py_getitem device ''model'') (\<lambda>device_model.
        ebind (py_getitem device ''type'') (\<lambda>device_type.
        ebind (py_getitem bridge_device ''serial'') (\<lambda>via_serial.
        Inr \<lparr>dev_device = device, dev_bridge_device = bridge_device,
             dev_bridge_unique_id = Some bridge_unique_id,
             dev_display_name = Some (fst area_name @ '' '' @ snd area_name),
             dev_attr_name = Some (fst area_name @ '' '' @ snd area_name),
             dev_attr_unique_id = Some serial,
             dev_attr_device_info = Some
               \<lparr>info_identifiers = {(DOMAIN, identifier)},
                info_manufacturer = MANUFACTURER,
                info_model = py_str device_model @ '' ('' @ py_str device_type @ '')'',
                info_name = fst area_name @ '' '' @ snd area_name,
                info_via_device = Some (DOMAIN, via_serial),
                info_configuration_url = Some CONFIG_URL,
                info_suggested_area =
                  (if fst area_name \<noteq> UNASSIGNED_AREA then Some (fst area_name)
                   else None)\<rparr>\<rparr>)))))))))))"

section \<open>lutron\_hwqsx: \<^verbatim>\<open>binary_sensor.py\<close>\<close>

text \<open>
  \<^verbatim>\<open>LutronOccupancySensor.is_on\<close>:
  \<^verbatim>\<open>return self._device["status"] == OCCUPANCY_GROUP_OCCUPIED\<close>.
  The constant is the vendor library's and is a parameter.
\<close>

definition LutronOccupancySensor_is_on :: "pyval \<Rightarrow> pydict \<Rightarrow> py_error + bool" where
  "LutronOccupancySensor_is_on OCCUPANCY_GROUP_OCCUPIED device =
     ebind (py_getitem device ''status'') (\<lambda>status.
     Inr (status = OCCUPANCY_GROUP_OCCUPIED))"

section \<open>lutron\_hwqsx: \<^verbatim>\<open>button.py\<close>\<close>

text \<open>\<^verbatim>\<open>LutronCasetaButton\<close>, without the handle of the vendor's bridge object.\<close>

record lutron_caseta_button =
  btn_device :: pydict
  btn_bridge_device :: pydict
  btn_device_id :: string
  btn_attr_entity_registry_enabled_default :: bool
  btn_display_name :: string
  btn_attr_name :: string
  btn_attr_unique_id :: string
  btn_attr_device_info :: device_info

text \<open>
  \<^verbatim>\<open>LutronCasetaButton.__init__\<close>:
  \<^verbatim>\<open>
  self.device_id = str(device[ATTR_DEVICE_ID])
  button_name = device[ATTR_BUTTON_NAME]
  if button_name == SEETOUCH_BUTTON_NAME_LOWER:
      button_name = "Lower"
  elif button_name == SEETOUCH_BUTTON_NAME_RAISE:
      button_name = "Raise"
  if SEETOUCH_BUTTON_NAME_DEFAULT_PATTERN in button_name:
      self._attr_entity_registry_enabled_default = False
  else:
      self._attr_entity_registry_enabled_default = True
  device_name = device[ATTR_NAME]
  area, _ = _area_and_name_from_name(device_name)
  self.display_name = f"{area} {button_name}"
  self._attr_name = self.display_name
  self._attr_unique_id = self.device_id
  parent_area, parent_name =
      _area_and_name_from_name(parent_device[ATTR_CONTROL_STATION_NAME])
  info = {ATTR_IDENTIFIERS: {(DOMAIN, parent_device[ATTR_DEVICE_ID])},
      ATTR_NAME: f"{parent_area} {parent_name}", ATTR_MANUFACTURER: MANUFACTURER,
      ATTR_MODEL: f"{device[ATTR_MODEL]} ({device[ATTR_TYPE]})"}
  if parent_area != UNASSIGNED_AREA:
      info[ATTR_SUGGESTED_AREA] = parent_area
  self._attr_device_info = info
  \<close>
  The dictionary \<^verbatim>\<open>info\<close> has no \<^verbatim>\<open>via_device\<close> and no configuration URL.
\<close>

definition LutronCasetaButton_init ::
  "pydict \<Rightarrow> pydict \<Rightarrow> pydict \<Rightarrow> py_error + lutron_caseta_button" where
  "LutronCasetaButton_init device bridge_device parent_device =
     ebind (py_getitem device ATTR_DEVICE_ID) (\<lambda>device_id.
     ebind (py_getitem device ATTR_BUTTON_NAME) (\<lambda>button_name.
     ebind (as_str (if button_name = PStr SEETOUCH_BUTTON_NAME_LOWER then PStr ''Lower''
                    else if button_name = PStr SEETOUCH_BUTTON_NAME_RAISE then PStr ''Raise''
                    else button_name)) (\<lambda>button_name.
     ebind (py_getitem device ATTR_NAME) (\<lambda>device_name.
     ebind (as_str device_name) (\<lambda>device_name.
     ebind (area_and_name_from_name_button_py device_name) (\<lambda>area_name.
     ebind (py_getitem parent_device ATTR_CONTROL_STATION_NAME) (\<lambda>station_name.
     ebind (as_str station_name) (\<lambda>station_name.
     ebind (area_and_name_from_name_button_py station_name) (\<lambda>parent_area_name.
     ebind (py_getitem parent_device ATTR_DEVICE_ID) (\<lambda>parent_device_id.
     ebind (py_getitem device ATTR_MODEL) (\<lambda>device_model.
     ebind (py_getitem device ATTR_TYPE) (\<lambda>device_type.
     Inr \<lparr>btn_device = device, btn_bridge_device = bridge_device,
          btn_device_id = py_str device_id,
          btn_attr_entity_registry_enabled_default =
            (if py_in SEETOUCH_BUTTON_NAME_DEFAULT_PATTERN button_name then False else True),
          btn_display_name = fst area_name @ '' '' @ button_name,
          btn_attr_name = fst area_name @ '' '' @ button_name,
          btn_attr_unique_id = py_str device_id,
          btn_attr_device_info =
            \<lparr>info_identifiers = {(DOMAIN, parent_device_id)},
             info_manufacturer = MANUFACTURER,
             info_model = py_str device_model @ '' ('' @ py_str device_type @ '')'',
             info_name = fst parent_area_name @ '' '' @ snd parent_area_name,
             info_via_device = None,
             info_configuration_url = None,
             info_suggested_area =
               (if fst parent_area_name \<noteq> UNASSIGNED_AREA then Some (fst parent_area_name)
                else None)\<rparr>\<rparr>))))))))))))"

section \<open>mcintosh: \<^verbatim>\<open>media_player.py\<close>\<close>

text \<open>
  \<^verbatim>\<open>McIntoshDevice\<close>: the attributes that \<^verbatim>\<open>__init__\<close> assigns. The lines of a telnet
  response are decoded as ASCII.
\<close>

record mcintosh_device =
  mc_name :: string
  mc_host :: string
  mc_pwstate :: string
  mc_volume :: int
  mc_volume_max :: int
  mc_source_list :: "string \<rightharpoonup> string"
  mc_muted :: bool
  mc_mediasource :: string
  mc_mediainfo :: string
  mc_should_setup_sources :: bool

text \<open>
  The body of the loop of \<^verbatim>\<open>handle_volume_response\<close>:
  \<^verbatim>\<open>
  if line.startswith("MVMAX "):
      self._volume_max = int(line[len("MVMAX ") : len("MVMAX XX")])
      continue
  elif line.startswith("MV"):
      self._volume = int(line[len("MV") : len("MVXX")])
  \<close>
\<close>

definition handle_volume_line :: "mcintosh_device \<Rightarrow> string \<Rightarrow> py_error + mcintosh_device" where
  "handle_volume_line self line =
     (if py_startswith line ''MVMAX '' then
        ebind (py_int_of_str (py_slice line (length ''MVMAX '') (length ''MVMAX XX''))) (\<lambda>v.
        Inr (self\<lparr>mc_volume_max := v\<rparr>))
      else if py_startswith line ''MV'' then
        ebind (py_int_of_str (py_slice line (length ''MV'') (length ''MVXX''))) (\<lambda>v.
        Inr (self\<lparr>mc_volume := v\<rparr>))
      else Inr self)"

text \<open>
  \<^verbatim>\<open>handle_volume_response\<close>: the loop over the lines, then \<^verbatim>\<open>return self._volume\<close>.
  The device is returned with the result; a line that raises stops the loop and leaves
  the device as the earlier lines made it.
\<close>

fun handle_volume_response ::
  "mcintosh_device \<Rightarrow> string list \<Rightarrow> (py_error + int) \<times> mcintosh_device" where
  "handle_volume_response self [] = (Inr (mc_volume self), self)"
| "handle_volume_response self (line # response) =
     (case handle_volume_line self line of
        Inl e \<Rightarrow> (Inl e, self)
      | Inr self' \<Rightarrow> handle_volume_response self' response)"

section \<open>screenlogic: \<^verbatim>\<open>number.py\<close>\<close>

definition SETPUMPFLOW_QUERY :: int where
  "SETPUMPFLOW_QUERY = 12586"

text \<open>
  \<^verbatim>\<open>struct.pack("<IIIII", a, b, c, d, e)\<close>: five unsigned 32-bit integers, little
  endian, as a list of bytes. A value outside \<open>0 .. 2^32 - 1\<close> raises \<^verbatim>\<open>struct.error\<close>;
  a Boolean is packed as 0 or 1.
\<close>

definition pack_uint32_le :: "int \<Rightarrow> py_error + nat list" where
  "pack_uint32_le v =
     (if 0 \<le> v \<and> v < 2 ^ 32
      then Inr [nat (v mod 256), nat (v div 256 mod 256), nat (v div 65536 mod 256),
                nat (v div 16777216 mod 256)]
      else Inl StructError)"

definition struct_pack_IIIII :: "int \<Rightarrow> int \<Rightarrow> int \<Rightarrow> int \<Rightarrow> int \<Rightarrow> py_error + nat list" where
  "struct_pack_IIIII a b c d e =
     ebind (pack_uint32_le a) (\<lambda>pa.
     ebind (pack_uint32_le b) (\<lambda>pb.
     ebind (pack_uint32_le c) (\<lambda>pc.
     ebind (pack_uint32_le d) (\<lambda>pd.
     ebind (pack_uint32_le e) (\<lambda>pe.
     Inr (pa @ pb @ pc @ pd @ pe))))))"

text \<open>
  \<^verbatim>\<open>async_request_set_pump_flow\<close>. \<^verbatim>\<open>async_make_request\<close> is defined in
  \<^verbatim>\<open>api/request.py\<close> and is a parameter: from the state \<open>'g\<close> of the gateway
  connection, the message code and the payload it gives the answer and the new state.
  \<^verbatim>\<open>
  return (await async_make_request(protocol, SETPUMPFLOW_QUERY,
              struct.pack("<IIIII", 0, pumpID, body, flow, isRPMs)) == b"")
  \<close>
\<close>

definition async_request_set_pump_flow ::
  "('g \<Rightarrow> int \<Rightarrow> nat list \<Rightarrow> nat list \<times> 'g) \<Rightarrow> int \<Rightarrow> int \<Rightarrow> int \<Rightarrow> bool \<Rightarrow> 'g \<Rightarrow>
   (py_error + bool) \<times> 'g" where
  "async_request_set_pump_flow async_make_request body pumpID flow isRPMs gateway =
     (case struct_pack_IIIII 0 pumpID body flow (if isRPMs then 1 else 0) of
        Inl e \<Rightarrow> (Inl e, gateway)
      | Inr payload \<Rightarrow>
          (case async_make_request gateway SETPUMPFLOW_QUERY payload of
             (answer, gateway') \<Rightarrow> (Inr (answer = []), gateway')))"

text \<open>
  \<^verbatim>\<open>ScreenLogicPumpPreset\<close>. \<open>sl_pumps\<close> is \<^verbatim>\<open>coordinator.data[SL_DATA.KEY_PUMPS]\<close>:
  a dictionary from pump numbers to the pumps' data, of which the code below reads
  the dictionary \<^verbatim>\<open>"presets"\<close>, from preset ids to the presets' dictionaries.
\<close>

record pump_data =
  pump_presets :: "pyval \<rightharpoonup> pydict"

record screenlogic_pump_preset =
  sl_pumps :: "pyval \<rightharpoonup> pump_data"
  sl_pump_id :: pyval
  sl_flow_type :: string
  sl_preset_id :: pyval
  sl_isRPMs :: bool

text \<open>The property \<^verbatim>\<open>pump_data\<close>: \<^verbatim>\<open>self.coordinator.data[SL_DATA.KEY_PUMPS][self._pump_id]\<close>.\<close>

definition pump_data_of :: "screenlogic_pump_preset \<Rightarrow> py_error + pump_data" where
  "pump_data_of self = py_getitem (sl_pumps self) (sl_pump_id self)"

text \<open>
  \<^verbatim>\<open>
  def _is_valid_pumpflow(self, flow, isRPMs):
      if isRPMs:
          min_flow = 1000
          max_flow = 3450
      else:
          min_flow = 20
          max_flow = 90
      return min_flow <= flow <= max_flow
  \<close>
\<close>

definition is_valid_pumpflow :: "int \<Rightarrow> bool \<Rightarrow> bool" where
  "is_valid_pumpflow flow isRPMs =
     (let min_flow = (if isRPMs then 1000 else 20);
          max_flow = (if isRPMs then 3450 else 90)
      in min_flow \<le> flow \<and> flow \<le> max_flow)"

text \<open>
  \<^verbatim>\<open>
  def _is_valid_preset(self, preset):
      presets = self.pump_data["presets"]
      if preset not in presets:
          return False
      return presets[preset]["cid"] != 0
  \<close>
\<close>

definition is_valid_preset :: "screenlogic_pump_preset \<Rightarrow> pyval \<Rightarrow> py_error + bool" where
  "is_valid_preset self preset =
     ebind (pump_data_of self) (\<lambda>pump.
     (let presets = pump_presets pump
      in if \<not> py_contains presets preset then Inr False
         else ebind (py_getitem presets preset) (\<lambda>preset_data.
              ebind (py_getitem preset_data ''cid'') (\<lambda>cid.
              Inr (cid \<noteq> PInt 0)))))"

text \<open>
  \<^verbatim>\<open>async_set_preset\<close>. \<^verbatim>\<open>async_connect\<close> is the vendor gateway's and is a
  parameter: it gives whether the gateway is connected and the gateway's new state.
  \<^verbatim>\<open>
  preset = int(preset_id)
  if not self._is_valid_preset(preset):
      raise ValueError(f"Invalid preset: {preset}")
  if not self._is_valid_pumpflow(flow, isRPMs):
      raise ValueError(f"Invalid flow ({flow}) for preset ({preset}) isRPMs={isRPMs}")
  if await self.coordinator.gateway.async_connect():
      if await async_request_set_pump_flow(
          self.coordinator.gateway._ScreenLogicGateway__protocol, preset, pumpID, flow, isRPMs):
          return True
  return False
  \<close>
\<close>

definition async_set_preset ::
  "('g \<Rightarrow> bool \<times> 'g) \<Rightarrow> ('g \<Rightarrow> int \<Rightarrow> nat list \<Rightarrow> nat list \<times> 'g) \<Rightarrow>
   screenlogic_pump_preset \<Rightarrow> pyval \<Rightarrow> int \<Rightarrow> int \<Rightarrow> bool \<Rightarrow> 'g \<Rightarrow> (py_error + bool) \<times> 'g" where
  "async_set_preset async_connect async_make_request self preset_id pumpID flow isRPMs gateway =
     (case py_int preset_id of
        Inl e \<Rightarrow> (Inl e, gateway)
      | Inr preset \<Rightarrow>
          (case is_valid_preset self (PInt preset) of
             Inl e \<Rightarrow> (Inl e, gateway)
           | Inr valid_preset \<Rightarrow>
               if \<not> valid_preset then (Inl ValueError, gateway)
               else if \<not> is_valid_pumpflow flow isRPMs then (Inl ValueError, gateway)
               else
                 (case async_connect gateway of
                    (connected, gateway') \<Rightarrow>
                      if connected then
                        (case async_request_set_pump_flow async_make_request preset pumpID flow
                                isRPMs gateway' of
                           (Inl e, gateway'') \<Rightarrow> (Inl e, gateway'')
                         | (Inr sent, gateway'') \<Rightarrow>
                             if sent then (Inr True, gateway'') else (Inr False, gateway''))
                      else (Inr False, gateway'))))"

section \<open>Facts about the string operations\<close>

lemma ebind_Inr [simp]: "ebind (Inr v) f = f v"
  by (simp add: ebind_def)

lemma ebind_Inl [simp]: "ebind (Inl e) f = Inl e"
  by (simp add: ebind_def)

lemma py_in_char: "py_in [c] s \<longleftrightarrow> c \<in> set s"
  by (induction s) (auto simp: py_startswith_def)

lemma py_split_nonempty: "py_split sep n s \<noteq> []"
  by (induction s arbitrary: n) (auto split: list.splits)

lemma py_split_zero: "py_split sep 0 s = [s]"
  by (induction s) auto

lemma py_split_no_sep: "sep \<notin> set s \<Longrightarrow> py_split sep n s = [s]"
  by (induction s) auto

lemma py_split_first:
  "sep \<notin> set a \<Longrightarrow> n \<noteq> 0 \<Longrightarrow> py_split sep n (a @ sep # b) = a # py_split sep (n - 1) b"
  by (induction a) auto

lemma py_index_0: "py_index (x # xs) 0 = Inr x"
  by (simp add: py_index_def)

lemma py_index_1: "py_index (x # y # xs) 1 = Inr y"
  by (simp add: py_index_def)

lemma split_at_first_underscore:
  assumes "CHR ''_'' \<notin> set a"
  shows "py_split (CHR ''_'') 1 (a @ CHR ''_'' # b) = [a, b]"
  using py_split_first [OF assms, of 1 b] by (simp add: py_split_zero)

lemma area_and_name_from_name_split:
  "CHR ''_'' \<notin> set a \<Longrightarrow> area_and_name_from_name (a @ CHR ''_'' # b) = Inr (a, b)"
  by (simp add: area_and_name_from_name_def py_in_char split_at_first_underscore
      py_index_0 py_index_1)

lemma area_and_name_from_name_fallback:
  "CHR ''_'' \<notin> set s \<Longrightarrow> area_and_name_from_name s = Inr (UNASSIGNED_AREA, s)"
  by (simp add: area_and_name_from_name_def py_in_char)

lemma button_area_and_name_eq: "button_area_and_name_from_name s = area_and_name_from_name s"
  by (simp add: button_area_and_name_from_name_def area_and_name_from_name_def)

lemma area_and_name_button_py_eq:
  "area_and_name_from_name_button_py s = area_and_name_from_name s"
  by (simp add: area_and_name_from_name_button_py_def area_and_name_from_name_def)

lemma ebind_eq_Inr: "ebind m f = Inr r \<longleftrightarrow> (\<exists>v. m = Inr v \<and> f v = Inr r)"
  by (cases m) (simp_all add: ebind_def)

lemma py_getitem_eq_Inr: "py_getitem d k = Inr v \<longleftrightarrow> d k = Some v"
  by (simp add: py_getitem_def split: option.splits)

lemma as_str_eq_Inr: "as_str v = Inr s \<longleftrightarrow> v = PStr s"
  by (cases v) (simp_all add: as_str_def)

lemmas attr_defs = ATTR_SERIAL_def ATTR_DEVICE_ID_def ATTR_NAME_def ATTR_MODEL_def ATTR_TYPE_def
  ATTR_CONTROL_STATION_NAME_def ATTR_BUTTON_GROUP_def ATTR_BUTTON_NAME_def

text \<open>The definitions that evaluate a call on concrete dictionaries and strings.\<close>

lemmas py_eval = py_getitem_def py_contains_def as_str_def py_str_def py_int_def py_int_of_str_def
  strip_space_def is_space_def is_digit_def digits_value_def digit_val_def py_startswith_def
  py_index_def py_slice_def

lemmas lutron_eval = attr_defs ensure_serial_def button_device_args_def in_QSX_KEYPADS_def
  QSX_KEYPADS_def area_and_name_from_name_def area_and_name_from_name_button_py_def
  UNASSIGNED_AREA_def async_register_button_devices_def

section \<open>Area and name parsing\<close>

text \<open>
  C1. Each of the three parsing functions, applied to a device name that contains an
  underscore, returns what precedes the first underscore as the area and everything after
  it (later underscores included) as the name; applied to a name without an underscore it
  returns the area "Unassigned" and the whole string as the name. No call raises.
\<close>

theorem area_and_name_first_underscore:
  "(CHR ''_'' \<notin> set a \<longrightarrow>
      area_and_name_from_name (a @ ''_'' @ b) = Inr (a, b) \<and>
      button_area_and_name_from_name (a @ ''_'' @ b) = Inr (a, b) \<and>
      area_and_name_from_name_button_py (a @ ''_'' @ b) = Inr (a, b)) \<and>
   (CHR ''_'' \<notin> set s \<longrightarrow>
      area_and_name_from_name s = Inr (''Unassigned'', s) \<and>
      button_area_and_name_from_name s = Inr (''Unassigned'', s) \<and>
      area_and_name_from_name_button_py s = Inr (''Unassigned'', s))"
  using area_and_name_from_name_split [of a b] area_and_name_from_name_fallback [of s]
  by (simp add: button_area_and_name_eq area_and_name_button_py_eq UNASSIGNED_AREA_def)

theorem area_and_name_first_underscore_witness:
  "CHR ''_'' \<notin> set ''Kitchen'' \<and> CHR ''_'' \<notin> set ''Pico'' \<and>
   area_and_name_from_name ''Kitchen_Main_Lights'' = Inr (''Kitchen'', ''Main_Lights'') \<and>
   button_area_and_name_from_name ''Kitchen_Main_Lights'' = Inr (''Kitchen'', ''Main_Lights'') \<and>
   area_and_name_from_name_button_py ''Kitchen_Main_Lights'' = Inr (''Kitchen'', ''Main_Lights'') \<and>
   area_and_name_from_name ''Pico'' = Inr (''Unassigned'', ''Pico'') \<and>
   button_area_and_name_from_name ''Pico'' = Inr (''Unassigned'', ''Pico'') \<and>
   area_and_name_from_name_button_py ''Pico'' = Inr (''Unassigned'', ''Pico'')"
  using area_and_name_first_underscore [of "''Kitchen''" "''Main_Lights''" "''Pico''"]
  by simp

text \<open>
  C2. The three private copies of the parsing function (in \<^verbatim>\<open>__init__.py\<close>,
  \<^verbatim>\<open>binary_sensor.py\<close> and \<^verbatim>\<open>button.py\<close>) return the same result on every
  input string.
\<close>

theorem area_and_name_copies_equal:
  "button_area_and_name_from_name s = area_and_name_from_name s \<and>
   area_and_name_from_name_button_py s = area_and_name_from_name s"
  by (simp add: button_area_and_name_from_name_def area_and_name_from_name_button_py_def
      area_and_name_from_name_def)

section \<open>Button devices in the registry\<close>

lemma button_device_args_Inr:
  assumes "button_device_args config_entry_id bridge_device button_group_to_device_map device
             = Inr args"
  shows "\<exists>device_type hass_device_id device_name area name bridge_serial.
           device ''type'' = Some device_type \<and>
           (if in_QSX_KEYPADS device_type
            then \<exists>button_group parent_device.
                   device ''button_group'' = Some button_group \<and>
                   button_group_to_device_map button_group = Some parent_device \<and>
                   parent_device ''device_id'' = Some hass_device_id
            else device ''serial'' = Some hass_device_id) \<and>
           device ''name'' = Some (PStr device_name) \<and>
           area_and_name_from_name device_name = Inr (area, name) \<and>
           bridge_device ''serial'' = Some bridge_serial \<and>
           arg_name args = area @ '' '' @ name \<and>
           arg_identifiers args = {(DOMAIN, hass_device_id)} \<and>
           arg_via_device args = (DOMAIN, bridge_serial)"
proof -
  from assms obtain device_type hass_device_id device_name area_name device_model bridge_serial
    where ty: "device ''type'' = Some device_type"
      and hid: "(if in_QSX_KEYPADS device_type then
                   ebind (py_getitem device ATTR_BUTTON_GROUP) (\<lambda>button_group.
                   ebind (py_getitem button_group_to_device_map button_group) (\<lambda>parent_device.
                   py_getitem parent_device ATTR_DEVICE_ID))
                 else py_getitem device ATTR_SERIAL) = Inr hass_device_id"
      and dn: "device ''name'' = Some (PStr device_name)"
      and parse: "area_and_name_from_name device_name = Inr area_name"
      and bs: "bridge_device ''serial'' = Some bridge_serial"
      and args: "args = \<lparr>arg_name = fst area_name @ '' '' @ snd area_name,
          arg_manufacturer = MANUFACTURER,
          arg_config_entry_id = config_entry_id,
          arg_identifiers = {(DOMAIN, hass_device_id)},
          arg_model = py_str device_model @ '' ('' @ py_str device_type @ '')'',
          arg_via_device = (DOMAIN, bridge_serial),
          arg_suggested_area =
            (if fst area_name \<noteq> UNASSIGNED_AREA then Some (fst area_name) else None)\<rparr>"
    unfolding button_device_args_def ebind_eq_Inr py_getitem_eq_Inr as_str_eq_Inr attr_defs
    by force
  from hid have "if in_QSX_KEYPADS device_type
            then \<exists>button_group parent_device.
                   device ''button_group'' = Some button_group \<and>
                   button_group_to_device_map button_group = Some parent_device \<and>
                   parent_device ''device_id'' = Some hass_device_id
            else device ''serial'' = Some hass_device_id"
    by (auto simp: ebind_eq_Inr py_getitem_eq_Inr attr_defs split: if_splits)
  moreover have "area_and_name_from_name device_name = Inr (fst area_name, snd area_name)"
    using parse by simp
  ultimately show ?thesis using ty dn bs args
    by (intro exI [of _ device_type] exI [of _ hass_device_id] exI [of _ device_name]
        exI [of _ "fst area_name"] exI [of _ "snd area_name"] exI [of _ bridge_serial]) simp
qed


lemma in_QSX_KEYPADS_iff:
  "in_QSX_KEYPADS v \<longleftrightarrow>
     v \<in> {PStr ''SeeTouchHybridKeypad'', PStr ''HomeownerKeypad'',
          PStr ''SeeTouchTabletopKeypad'', PStr ''Pico3ButtonRaiseLower''}"
  by (cases v) (auto simp: in_QSX_KEYPADS_def QSX_KEYPADS_def)

lemma ensure_serial_Inr:
  assumes "ensure_serial device = Inr device'"
  shows "(\<forall>k. k \<noteq> ''serial'' \<longrightarrow> device' k = device k) \<and>
         (case device ''serial'' of
            Some serial \<Rightarrow> device' = device
          | None \<Rightarrow> device' = device \<and> device ''button_group'' = None \<or>
              (\<exists>button_group i. device ''button_group'' = Some button_group \<and>
                 py_int button_group = Inr i \<and> device' ''serial'' = Some (PInt i)))"
  using assms
  by (auto simp: ensure_serial_def py_contains_def attr_defs ebind_eq_Inr py_getitem_eq_Inr
      split: if_splits option.splits)

lemma devices_to_register_subset: "set (devices_to_register seen devices) \<subseteq> set devices"
  by (induction devices arbitrary: seen) (auto split: sum.splits if_splits)

lemma register_loop_positions:
  assumes "register_button_devices_loop (\<lambda>reg args. (reg @ [args], dr_id reg args))
             config_entry_id bridge_device button_group_to_device_map devices seen by_dr_id reg0
           = (res, calls)"
  shows "\<exists>new. calls = reg0 @ new \<and>
           list_all2 (\<lambda>device args. \<exists>device'. ensure_serial device = Inr device' \<and>
                        button_device_args config_entry_id bridge_device
                          button_group_to_device_map device' = Inr args)
             (take (length new) (devices_to_register seen devices)) new \<and>
           (\<forall>by_id. res = Inr by_id \<longrightarrow>
              length new = length (devices_to_register seen devices))"
  using assms
proof (induction devices arbitrary: seen by_dr_id reg0)
  case Nil
  then show ?case by auto
next
  case (Cons device devices)
  show ?case
  proof (cases "ensure_serial device")
    case (Inl e)
    with Cons.prems show ?thesis by auto
  next
    case dev': (Inr device')
    show ?thesis
    proof (cases "py_getitem device' ATTR_SERIAL")
      case (Inl e)
      with Cons.prems dev' show ?thesis by auto
    next
      case serial: (Inr serial)
      show ?thesis
      proof (cases "serial \<in> seen")
        case True
        with Cons.prems dev' serial
        have "register_button_devices_loop (\<lambda>reg args. (reg @ [args], dr_id reg args))
                config_entry_id bridge_device button_group_to_device_map devices seen by_dr_id reg0
              = (res, calls)"
          by simp
        from Cons.IH [OF this] dev' serial True show ?thesis by simp
      next
        case False
        show ?thesis
        proof (cases "button_device_args config_entry_id bridge_device
                        button_group_to_device_map device'")
          case (Inl e)
          with Cons.prems dev' serial False show ?thesis by auto
        next
          case a: (Inr a)
          with Cons.prems dev' serial False
          have "register_button_devices_loop (\<lambda>reg args. (reg @ [args], dr_id reg args))
                  config_entry_id bridge_device button_group_to_device_map devices
                  (insert serial seen) (by_dr_id(dr_id reg0 a \<mapsto> device')) (reg0 @ [a])
                = (res, calls)"
            by simp
          from Cons.IH [OF this]
          obtain new where new: "calls = (reg0 @ [a]) @ new"
            and all2: "list_all2 (\<lambda>device args. \<exists>device'. ensure_serial device = Inr device' \<and>
                        button_device_args config_entry_id bridge_device
                          button_group_to_device_map device' = Inr args)
                 (take (length new) (devices_to_register (insert serial seen) devices)) new"
            and len: "\<forall>by_id. res = Inr by_id \<longrightarrow>
                 length new = length (devices_to_register (insert serial seen) devices)"
            by blast
          have regs: "devices_to_register seen (device # devices)
                        = device # devices_to_register (insert serial seen) devices"
            using dev' serial False by simp
          show ?thesis
          proof (intro exI [of _ "a # new"] conjI)
            show "calls = reg0 @ a # new" using new by simp
            show "list_all2 (\<lambda>device args. \<exists>device'. ensure_serial device = Inr device' \<and>
                        button_device_args config_entry_id bridge_device
                          button_group_to_device_map device' = Inr args)
                 (take (length (a # new)) (devices_to_register seen (device # devices))) (a # new)"
              unfolding regs using all2 dev' a by simp
            show "\<forall>by_id. res = Inr by_id \<longrightarrow>
                 length (a # new) = length (devices_to_register seen (device # devices))"
              unfolding regs using len by simp
          qed
        qed
      qed
    qed
  qed
qed

lemma registered_device_own_identifier:
  assumes dev': "ensure_serial device = Inr device'"
    and a: "button_device_args config_entry_id bridge_device button_group_to_device_map device'
              = Inr args"
  shows "\<exists>device_type bridge_serial.
           device ''type'' = Some device_type \<and>
           (if device_type \<in> {PStr ''SeeTouchHybridKeypad'', PStr ''HomeownerKeypad'',
                              PStr ''SeeTouchTabletopKeypad'', PStr ''Pico3ButtonRaiseLower''}
            then \<exists>button_group parent_device parent_id.
                   device ''button_group'' = Some button_group \<and>
                   button_group_to_device_map button_group = Some parent_device \<and>
                   parent_device ''device_id'' = Some parent_id \<and>
                   arg_identifiers args = {(DOMAIN, parent_id)}
            else \<exists>serial.
                   arg_identifiers args = {(DOMAIN, serial)} \<and>
                   (device ''serial'' = Some serial \<or>
                    device ''serial'' = None \<and>
                    (\<exists>button_group i. device ''button_group'' = Some button_group \<and>
                       py_int button_group = Inr i \<and> serial = PInt i))) \<and>
           bridge_device ''serial'' = Some bridge_serial \<and>
           arg_via_device args = (DOMAIN, bridge_serial)"
proof -
  from button_device_args_Inr [OF a]
  obtain device_type hass_device_id bridge_serial
    where ty: "device' ''type'' = Some device_type"
      and hid: "if in_QSX_KEYPADS device_type
            then \<exists>button_group parent_device.
                   device' ''button_group'' = Some button_group \<and>
                   button_group_to_device_map button_group = Some parent_device \<and>
                   parent_device ''device_id'' = Some hass_device_id
            else device' ''serial'' = Some hass_device_id"
      and bs: "bridge_device ''serial'' = Some bridge_serial"
      and ids: "arg_identifiers args = {(DOMAIN, hass_device_id)}"
      and via: "arg_via_device args = (DOMAIN, bridge_serial)"
    by blast
  from ensure_serial_Inr [OF dev']
  have same: "\<And>k. k \<noteq> ''serial'' \<Longrightarrow> device' k = device k"
    and ser: "case device ''serial'' of
            Some serial \<Rightarrow> device' = device
          | None \<Rightarrow> device' = device \<and> device ''button_group'' = None \<or>
              (\<exists>button_group i. device ''button_group'' = Some button_group \<and>
                 py_int button_group = Inr i \<and> device' ''serial'' = Some (PInt i))"
    by auto
  have ty0: "device ''type'' = Some device_type" using ty same [of "''type''"] by simp
  have bg0: "device' ''button_group'' = device ''button_group''" using same by simp
  have "if device_type \<in> {PStr ''SeeTouchHybridKeypad'', PStr ''HomeownerKeypad'',
                              PStr ''SeeTouchTabletopKeypad'', PStr ''Pico3ButtonRaiseLower''}
            then \<exists>button_group parent_device parent_id.
                   device ''button_group'' = Some button_group \<and>
                   button_group_to_device_map button_group = Some parent_device \<and>
                   parent_device ''device_id'' = Some parent_id \<and>
                   arg_identifiers args = {(DOMAIN, parent_id)}
            else \<exists>serial.
                   arg_identifiers args = {(DOMAIN, serial)} \<and>
                   (device ''serial'' = Some serial \<or>
                    device ''serial'' = None \<and>
                    (\<exists>button_group i. device ''button_group'' = Some button_group \<and>
                       py_int button_group = Inr i \<and> serial = PInt i))"
  proof (cases "in_QSX_KEYPADS device_type")
    case True
    with hid bg0 ids show ?thesis
      unfolding in_QSX_KEYPADS_iff [symmetric] by auto
  next
    case False
    with hid have s: "device' ''serial'' = Some hass_device_id" by simp
    have "device ''serial'' = Some hass_device_id \<or>
          device ''serial'' = None \<and>
          (\<exists>button_group i. device ''button_group'' = Some button_group \<and>
             py_int button_group = Inr i \<and> hass_device_id = PInt i)"
      using ser s by (cases "device ''serial''") auto
    with False ids show ?thesis
      unfolding in_QSX_KEYPADS_iff [symmetric] by auto
  qed
  with ty0 bs via show ?thesis by blast
qed

lemma ensure_serial_has_serial:
  "device ATTR_SERIAL = Some serial \<Longrightarrow> ensure_serial device = Inr device"
  by (simp add: ensure_serial_def py_contains_def)

text \<open>When every device has a serial and no two share one, every device is registered.\<close>

lemma devices_to_register_distinct:
  assumes "\<forall>device \<in> set devices. \<exists>serial. device ATTR_SERIAL = Some serial \<and> serial \<notin> seen"
    and "distinct (map (\<lambda>device. device ATTR_SERIAL) devices)"
  shows "devices_to_register seen devices = devices"
  using assms
proof (induction devices arbitrary: seen)
  case Nil
  show ?case by simp
next
  case (Cons device devices)
  from Cons.prems(1) obtain serial where s: "device ATTR_SERIAL = Some serial" "serial \<notin> seen"
    by auto
  from Cons.prems(2) have fresh: "Some serial \<notin> (\<lambda>device. device ATTR_SERIAL) ` set devices"
    and dist: "distinct (map (\<lambda>device. device ATTR_SERIAL) devices)"
    using s(1) by simp_all
  have "\<forall>d \<in> set devices. \<exists>serial'. d ATTR_SERIAL = Some serial' \<and> serial' \<notin> insert serial seen"
  proof
    fix d assume d: "d \<in> set devices"
    with Cons.prems(1) obtain serial' where s': "d ATTR_SERIAL = Some serial'" "serial' \<notin> seen"
      by auto
    from d have "d ATTR_SERIAL \<in> (\<lambda>device. device ATTR_SERIAL) ` set devices"
      by (rule imageI)
    with fresh have "d ATTR_SERIAL \<noteq> Some serial"
      by auto
    with s' show "\<exists>serial'. d ATTR_SERIAL = Some serial' \<and> serial' \<notin> insert serial seen"
      by simp
  qed
  then have "devices_to_register (insert serial seen) devices = devices"
    using dist by (rule Cons.IH)
  with s show ?case
    by (simp add: ensure_serial_has_serial py_getitem_def)
qed

text \<open>
  The device information of a button entity (\<^verbatim>\<open>button.py\<close>) names the same parent
  device and carries no \<^verbatim>\<open>via_device\<close> of its own.
\<close>

lemma button_entity_identifier:
  assumes "LutronCasetaButton_init device bridge_device parent_device = Inr self"
  shows "\<exists>parent_id. parent_device ''device_id'' = Some parent_id \<and>
           info_identifiers (btn_attr_device_info self) = {(DOMAIN, parent_id)} \<and>
           info_via_device (btn_attr_device_info self) = None"
  using assms
  by (auto simp: LutronCasetaButton_init_def ebind_eq_Inr py_getitem_eq_Inr as_str_eq_Inr
      attr_defs)

text \<open>
  C3. \<^verbatim>\<open>_async_register_button_devices\<close> calls the registry's
  \<^verbatim>\<open>async_get_or_create\<close> once for each device it registers, in order, and the call made
  for a device carries that device's own identifier: if the device's type is one of the
  four QSX keypad types, its button group is a key of the button-group-to-device map and
  the identifier is the \<^verbatim>\<open>device_id\<close> of the parent device found there; otherwise the
  identifier is the device's own serial (the serial that the loop has just derived from the
  button group when the device had none). In both cases \<^verbatim>\<open>via_device\<close> is the serial of
  the bridge device. The registry is taken as the list of the calls made; a run that
  raises has made the calls for the devices before the one that raised, and a run that
  returns has made one for every device to register.
\<close>

theorem registered_button_device_identifier:
  assumes "async_register_button_devices (\<lambda>reg args. (reg @ [args], dr_id reg args))
             config_entry_id bridge_device button_devices button_group_to_device_map []
           = (res, calls)"
  shows "list_all2
           (\<lambda>device args. \<exists>device_type bridge_serial.
              device ''type'' = Some device_type \<and>
              (if device_type \<in> {PStr ''SeeTouchHybridKeypad'', PStr ''HomeownerKeypad'',
                                 PStr ''SeeTouchTabletopKeypad'', PStr ''Pico3ButtonRaiseLower''}
               then \<exists>button_group parent_device parent_id.
                      device ''button_group'' = Some button_group \<and>
                      button_group_to_device_map button_group = Some parent_device \<and>
                      parent_device ''device_id'' = Some parent_id \<and>
                      arg_identifiers args = {(DOMAIN, parent_id)}
               else \<exists>serial.
                      arg_identifiers args = {(DOMAIN, serial)} \<and>
                      (device ''serial'' = Some serial \<or>
                       device ''serial'' = None \<and>
                       (\<exists>button_group i. device ''button_group'' = Some button_group \<and>
                          py_int button_group = Inr i \<and> serial = PInt i))) \<and>
              bridge_device ''serial'' = Some bridge_serial \<and>
              arg_via_device args = (DOMAIN, bridge_serial))
           (take (length calls) (devices_to_register {} button_devices)) calls \<and>
         (\<forall>by_id. res = Inr by_id \<longrightarrow>
            length calls = length (devices_to_register {} button_devices))"
proof -
  from register_loop_positions [OF assms [unfolded async_register_button_devices_def]]
  have all2: "list_all2 (\<lambda>device args. \<exists>device'. ensure_serial device = Inr device' \<and>
                        button_device_args config_entry_id bridge_device
                          button_group_to_device_map device' = Inr args)
             (take (length calls) (devices_to_register {} button_devices)) calls"
    and len: "\<forall>by_id. res = Inr by_id \<longrightarrow>
              length calls = length (devices_to_register {} button_devices)"
    by auto
  from all2 have "list_all2
           (\<lambda>device args. \<exists>device_type bridge_serial.
              device ''type'' = Some device_type \<and>
              (if device_type \<in> {PStr ''SeeTouchHybridKeypad'', PStr ''HomeownerKeypad'',
                                 PStr ''SeeTouchTabletopKeypad'', PStr ''Pico3ButtonRaiseLower''}
               then \<exists>button_group parent_device parent_id.
                      device ''button_group'' = Some button_group \<and>
                      button_group_to_device_map button_group = Some parent_device \<and>
                      parent_device ''device_id'' = Some parent_id \<and>
                      arg_identifiers args = {(DOMAIN, parent_id)}
               else \<exists>serial.
                      arg_identifiers args = {(DOMAIN, serial)} \<and>
                      (device ''serial'' = Some serial \<or>
                       device ''serial'' = None \<and>
                       (\<exists>button_group i. device ''button_group'' = Some button_group \<and>
                          py_int button_group = Inr i \<and> serial = PInt i))) \<and>
              bridge_device ''serial'' = Some bridge_serial \<and>
              arg_via_device args = (DOMAIN, bridge_serial))
           (take (length calls) (devices_to_register {} button_devices)) calls"
  proof (rule list_all2_mono)
    fix device args
    assume "\<exists>device'. ensure_serial device = Inr device' \<and>
              button_device_args config_entry_id bridge_device
                button_group_to_device_map device' = Inr args"
    then obtain device' where "ensure_serial device = Inr device'"
      and "button_device_args config_entry_id bridge_device
                button_group_to_device_map device' = Inr args"
      by blast
    then show "\<exists>device_type bridge_serial.
              device ''type'' = Some device_type \<and>
              (if device_type \<in> {PStr ''SeeTouchHybridKeypad'', PStr ''HomeownerKeypad'',
                                 PStr ''SeeTouchTabletopKeypad'', PStr ''Pico3ButtonRaiseLower''}
               then \<exists>button_group parent_device parent_id.
                      device ''button_group'' = Some button_group \<and>
                      button_group_to_device_map button_group = Some parent_device \<and>
                      parent_device ''device_id'' = Some parent_id \<and>
                      arg_identifiers args = {(DOMAIN, parent_id)}
               else \<exists>serial.
                      arg_identifiers args = {(DOMAIN, serial)} \<and>
                      (device ''serial'' = Some serial \<or>
                       device ''serial'' = None \<and>
                       (\<exists>button_group i. device ''button_group'' = Some button_group \<and>
                          py_int button_group = Inr i \<and> serial = PInt i))) \<and>
              bridge_device ''serial'' = Some bridge_serial \<and>
              arg_via_device args = (DOMAIN, bridge_serial)"
      by (rule registered_device_own_identifier)
  qed
  with len show ?thesis by blast
qed

theorem registered_button_device_identifier_witness:
  "\<exists>res calls.
     async_register_button_devices (\<lambda>reg args. (reg @ [args], ''dr'' @ arg_name args)) ''entry''
       [''serial'' \<mapsto> PInt 1234]
       [[''type'' \<mapsto> PStr ''SeeTouchHybridKeypad'', ''button_group'' \<mapsto> PStr ''7'',
         ''name'' \<mapsto> PStr ''Kitchen_Keypad'', ''model'' \<mapsto> PStr ''HQWT'',
         ''button_name'' \<mapsto> PStr ''Button 1''],
        [''type'' \<mapsto> PStr ''SeeTouchHybridKeypad'', ''button_group'' \<mapsto> PStr ''7'',
         ''name'' \<mapsto> PStr ''Kitchen_Keypad'', ''model'' \<mapsto> PStr ''HQWT'',
         ''button_name'' \<mapsto> PStr ''Button 2''],
        [''type'' \<mapsto> PStr ''Pico3ButtonRaiseLower2'', ''serial'' \<mapsto> PInt 77,
         ''name'' \<mapsto> PStr ''Pico'', ''model'' \<mapsto> PStr ''PJ2'']]
       [PStr ''7'' \<mapsto> [''device_id'' \<mapsto> PStr ''55'']] [] = (res, calls) \<and>
     map arg_identifiers calls = [{(DOMAIN, PStr ''55'')}, {(DOMAIN, PInt 77)}] \<and>
     map arg_via_device calls = [(DOMAIN, PInt 1234), (DOMAIN, PInt 1234)]"
proof -
  let ?keypad1 = "[''type'' \<mapsto> PStr ''SeeTouchHybridKeypad'', ''button_group'' \<mapsto> PStr ''7'',
         ''name'' \<mapsto> PStr ''Kitchen_Keypad'', ''model'' \<mapsto> PStr ''HQWT'',
         ''button_name'' \<mapsto> PStr ''Button 1'']"
  let ?keypad2 = "[''type'' \<mapsto> PStr ''SeeTouchHybridKeypad'', ''button_group'' \<mapsto> PStr ''7'',
         ''name'' \<mapsto> PStr ''Kitchen_Keypad'', ''model'' \<mapsto> PStr ''HQWT'',
         ''button_name'' \<mapsto> PStr ''Button 2'']"
  let ?pico = "[''type'' \<mapsto> PStr ''Pico3ButtonRaiseLower2'', ''serial'' \<mapsto> PInt 77,
         ''name'' \<mapsto> PStr ''Pico'', ''model'' \<mapsto> PStr ''PJ2'']"
  let ?run = "async_register_button_devices
       (\<lambda>reg args. (reg @ [args], ''dr'' @ arg_name args)) ''entry''
       [''serial'' \<mapsto> PInt 1234] [?keypad1, ?keypad2, ?pico]
       [PStr ''7'' \<mapsto> [''device_id'' \<mapsto> PStr ''55'']] []"
  obtain res calls where run: "?run = (res, calls)"
    by (cases ?run)
  have "\<exists>by_id. fst ?run = Inr by_id"
    by (simp add: py_eval lutron_eval)
  with run obtain by_id where res: "res = Inr by_id"
    by auto
  have regs: "devices_to_register {} [?keypad1, ?keypad2, ?pico] = [?keypad1, ?pico]"
    by (simp add: py_eval lutron_eval)
  note own = registered_button_device_identifier [OF run, unfolded regs]
  from own res have len: "length calls = 2"
    by simp
  then obtain a1 a2 where calls: "calls = [a1, a2]"
    by (cases calls; cases "tl calls") auto
  from own [THEN conjunct1] have "arg_identifiers a1 = {(DOMAIN, PStr ''55'')} \<and>
        arg_via_device a1 = (DOMAIN, PInt 1234) \<and>
        arg_identifiers a2 = {(DOMAIN, PInt 77)} \<and>
        arg_via_device a2 = (DOMAIN, PInt 1234)"
    unfolding calls by (auto split: if_splits)
  with run calls show ?thesis by simp
qed

section \<open>LIP button numbers and occupancy\<close>

lemma async_get_lip_button_missing_button:
  "lip device_type = Some name_to_num \<Longrightarrow> leap device_type = Some num_to_name \<Longrightarrow>
   num_to_name leap_button = None \<or>
     (\<exists>button_name. num_to_name leap_button = Some button_name \<and> name_to_num button_name = None) \<Longrightarrow>
   async_get_lip_button lip leap device_type leap_button = Inl KeyError"
  by (auto simp: async_get_lip_button_def py_getitem_def)

text \<open>
  C5. \<^verbatim>\<open>async_get_lip_button\<close> returns \<^verbatim>\<open>None\<close> exactly when the device type is
  missing from one of the two tables. When the device type is in both, the LEAP button is
  mapped to its name by the second table and the name to the LIP number by the first, and
  that number is returned.
\<close>

theorem async_get_lip_button_result:
  "(async_get_lip_button lip leap device_type leap_button = Inr None
      \<longleftrightarrow> device_type \<notin> dom lip \<or> device_type \<notin> dom leap) \<and>
   (lip device_type = Some name_to_num \<and> leap device_type = Some num_to_name \<and>
    num_to_name leap_button = Some button_name \<and> name_to_num button_name = Some n
      \<longrightarrow> async_get_lip_button lip leap device_type leap_button = Inr (Some n))"
  by (auto simp: async_get_lip_button_def ebind_eq_Inr py_getitem_eq_Inr
      split: option.splits)


theorem async_get_lip_button_result_witness:
  "async_get_lip_button [''Pico2Button'' \<mapsto> [''on'' \<mapsto> 2, ''off'' \<mapsto> 4]]
      [''Pico2Button'' \<mapsto> [0 \<mapsto> ''on'', 1 \<mapsto> ''off'']] ''Pico2Button'' 1 = Inr (Some 4) \<and>
   async_get_lip_button [''Pico2Button'' \<mapsto> [''on'' \<mapsto> 2, ''off'' \<mapsto> 4]]
      [''Pico2Button'' \<mapsto> [0 \<mapsto> ''on'', 1 \<mapsto> ''off'']] ''Pico9Button'' 1 = Inr None"
  using async_get_lip_button_result [of "[''Pico2Button'' \<mapsto> [''on'' \<mapsto> 2, ''off'' \<mapsto> 4]]"
      "[''Pico2Button'' \<mapsto> [0 \<mapsto> ''on'', 1 \<mapsto> ''off'']]" "''Pico2Button''" 1
      "[''on'' \<mapsto> 2, ''off'' \<mapsto> 4]" "[0 \<mapsto> ''on'', 1 \<mapsto> ''off'']" "''off''" 4]
    async_get_lip_button_result [of "[''Pico2Button'' \<mapsto> [''on'' \<mapsto> 2, ''off'' \<mapsto> 4]]"
      "[''Pico2Button'' \<mapsto> [0 \<mapsto> ''on'', 1 \<mapsto> ''off'']]" "''Pico9Button''" 1]
  by simp

text \<open>
  C6. \<^verbatim>\<open>LutronOccupancySensor.is_on\<close> is true if and only if the status of the
  occupancy group equals \<^verbatim>\<open>OCCUPANCY_GROUP_OCCUPIED\<close>; every other status gives false.
\<close>

theorem occupancy_is_on_iff:
  "(LutronOccupancySensor_is_on occupied device = Inr True
      \<longleftrightarrow> device ''status'' = Some occupied) \<and>
   (device ''status'' = Some status \<and> status \<noteq> occupied
      \<longrightarrow> LutronOccupancySensor_is_on occupied device = Inr False)"
  by (auto simp: LutronOccupancySensor_is_on_def py_getitem_def split: option.splits)

theorem occupancy_is_on_iff_witness:
  "LutronOccupancySensor_is_on (PStr ''Occupied'') [''status'' \<mapsto> PStr ''Unoccupied''] = Inr False \<and>
   LutronOccupancySensor_is_on (PStr ''Occupied'') [''status'' \<mapsto> PStr ''Occupied''] = Inr True"
  using occupancy_is_on_iff [of "PStr ''Occupied''" "[''status'' \<mapsto> PStr ''Unoccupied'']"
      "PStr ''Unoccupied''"]
    occupancy_is_on_iff [of "PStr ''Occupied''" "[''status'' \<mapsto> PStr ''Occupied'']"]
  by simp

section \<open>Button entities\<close>

text \<open>
  C10. For a button entity that \<^verbatim>\<open>LutronCasetaButton.__init__\<close> builds: the button
  named "Button 18" is shown as "Lower" and the one named "Button 19" as "Raise", and both
  are enabled by default, since the test for the default pattern sees the new name; any
  other button is shown under its own name and is enabled by default exactly when the name
  does not contain "Button ".
\<close>

theorem button_rename_before_hide:
  assumes init: "LutronCasetaButton_init device bridge_device parent_device = Inr self"
    and bn: "device ''button_name'' = Some (PStr button_name)"
    and dn: "device ''name'' = Some (PStr device_name)"
    and parse: "area_and_name_from_name_button_py device_name = Inr (area, name)"
  shows "(button_name = ''Button 18'' \<longrightarrow>
            btn_display_name self = area @ '' Lower'' \<and>
            btn_attr_entity_registry_enabled_default self) \<and>
         (button_name = ''Button 19'' \<longrightarrow>
            btn_display_name self = area @ '' Raise'' \<and>
            btn_attr_entity_registry_enabled_default self) \<and>
         (button_name \<noteq> ''Button 18'' \<and> button_name \<noteq> ''Button 19'' \<longrightarrow>
            btn_display_name self = area @ '' '' @ button_name \<and>
            (btn_attr_entity_registry_enabled_default self \<longleftrightarrow> \<not> py_in ''Button '' button_name))"
  using assms
  by (auto simp: LutronCasetaButton_init_def ebind_eq_Inr py_getitem_eq_Inr as_str_eq_Inr
      attr_defs SEETOUCH_BUTTON_NAME_LOWER_def SEETOUCH_BUTTON_NAME_RAISE_def
      SEETOUCH_BUTTON_NAME_DEFAULT_PATTERN_def py_startswith_def split: if_splits)

theorem button_rename_before_hide_witness:
  "(\<exists>self.
     LutronCasetaButton_init
       [''device_id'' \<mapsto> PStr ''101'', ''button_name'' \<mapsto> PStr ''Button 18'',
        ''name'' \<mapsto> PStr ''Kitchen_Keypad'', ''model'' \<mapsto> PStr ''HQWT'',
        ''type'' \<mapsto> PStr ''SeeTouchHybridKeypad'']
       [''serial'' \<mapsto> PInt 1234]
       [''control_station_name'' \<mapsto> PStr ''Kitchen_Entry'', ''device_id'' \<mapsto> PStr ''55'']
       = Inr self \<and>
     btn_display_name self = ''Kitchen Lower'' \<and>
     btn_attr_entity_registry_enabled_default self) \<and>
   (\<exists>self.
     LutronCasetaButton_init
       [''device_id'' \<mapsto> PStr ''102'', ''button_name'' \<mapsto> PStr ''Button 3'',
        ''name'' \<mapsto> PStr ''Kitchen_Keypad'', ''model'' \<mapsto> PStr ''HQWT'',
        ''type'' \<mapsto> PStr ''SeeTouchHybridKeypad'']
       [''serial'' \<mapsto> PInt 1234]
       [''control_station_name'' \<mapsto> PStr ''Kitchen_Entry'', ''device_id'' \<mapsto> PStr ''55'']
       = Inr self \<and>
     btn_display_name self = ''Kitchen Button 3'' \<and>
     \<not> btn_attr_entity_registry_enabled_default self)"
proof (rule conjI)
  let ?device = "[''device_id'' \<mapsto> PStr ''101'', ''button_name'' \<mapsto> PStr ''Button 18'',
        ''name'' \<mapsto> PStr ''Kitchen_Keypad'', ''model'' \<mapsto> PStr ''HQWT'',
        ''type'' \<mapsto> PStr ''SeeTouchHybridKeypad'']"
  let ?init = "LutronCasetaButton_init ?device [''serial'' \<mapsto> PInt 1234]
       [''control_station_name'' \<mapsto> PStr ''Kitchen_Entry'', ''device_id'' \<mapsto> PStr ''55'']"
  have parse: "area_and_name_from_name_button_py ''Kitchen_Keypad'' = Inr (''Kitchen'', ''Keypad'')"
    by (simp add: py_eval lutron_eval)
  have "\<exists>self. ?init = Inr self"
    by (simp add: LutronCasetaButton_init_def py_eval lutron_eval
        SEETOUCH_BUTTON_NAME_LOWER_def SEETOUCH_BUTTON_NAME_RAISE_def)
  then obtain self where init: "?init = Inr self" ..
  from button_rename_before_hide [OF init _ _ parse, of "''Button 18''"]
  have "btn_display_name self = ''Kitchen Lower'' \<and>
        btn_attr_entity_registry_enabled_default self"
    by simp
  with init show "\<exists>self. ?init = Inr self \<and> btn_display_name self = ''Kitchen Lower'' \<and>
     btn_attr_entity_registry_enabled_default self"
    by blast
next
  let ?device = "[''device_id'' \<mapsto> PStr ''102'', ''button_name'' \<mapsto> PStr ''Button 3'',
        ''name'' \<mapsto> PStr ''Kitchen_Keypad'', ''model'' \<mapsto> PStr ''HQWT'',
        ''type'' \<mapsto> PStr ''SeeTouchHybridKeypad'']"
  let ?init = "LutronCasetaButton_init ?device [''serial'' \<mapsto> PInt 1234]
       [''control_station_name'' \<mapsto> PStr ''Kitchen_Entry'', ''device_id'' \<mapsto> PStr ''55'']"
  have parse: "area_and_name_from_name_button_py ''Kitchen_Keypad'' = Inr (''Kitchen'', ''Keypad'')"
    by (simp add: py_eval lutron_eval)
  have "\<exists>self. ?init = Inr self"
    by (simp add: LutronCasetaButton_init_def py_eval lutron_eval
        SEETOUCH_BUTTON_NAME_LOWER_def SEETOUCH_BUTTON_NAME_RAISE_def)
  then obtain self where init: "?init = Inr self" ..
  from button_rename_before_hide [OF init _ _ parse, of "''Button 3''"]
  have "btn_display_name self = ''Kitchen Button 3'' \<and>
        \<not> btn_attr_entity_registry_enabled_default self"
    by (simp add: py_startswith_def)
  with init show "\<exists>self. ?init = Inr self \<and> btn_display_name self = ''Kitchen Button 3'' \<and>
     \<not> btn_attr_entity_registry_enabled_default self"
    by blast
qed

section \<open>Display names\<close>

lemma LutronCasetaDevice_init_Inr:
  assumes "LutronCasetaDevice_init serial_to_unique_id device bridge_device = Inr self"
    and "device ''serial'' \<noteq> None"
  shows "\<exists>device_name area name.
           device ''name'' = Some (PStr device_name) \<and>
           area_and_name_from_name device_name = Inr (area, name) \<and>
           dev_display_name self = Some (area @ '' '' @ name)"
proof -
  from assms obtain device_name area_name
    where dn: "device ''name'' = Some (PStr device_name)"
      and parse: "area_and_name_from_name device_name = Inr area_name"
      and disp: "dev_display_name self = Some (fst area_name @ '' '' @ snd area_name)"
    by (auto simp: LutronCasetaDevice_init_def py_contains_def ebind_eq_Inr py_getitem_eq_Inr
        as_str_eq_Inr)
  from parse have "area_and_name_from_name device_name = Inr (fst area_name, snd area_name)"
    by simp
  with dn disp show ?thesis by blast
qed

text \<open>
  C7. The name under which \<^verbatim>\<open>_async_register_button_devices\<close> registers a button
  device, and the display name of a \<^verbatim>\<open>LutronCasetaDevice\<close> entity built for a device
  with a serial, is the area parsed from the device's name, one space, and the parsed
  name. For a device name without an underscore it is "Unassigned " followed by the
  device name.
\<close>

theorem display_name_area_space_name:
  "(button_device_args config_entry_id bridge_device button_group_to_device_map device = Inr args
      \<longrightarrow> (\<exists>device_name area name.
             device ''name'' = Some (PStr device_name) \<and>
             area_and_name_from_name device_name = Inr (area, name) \<and>
             arg_name args = area @ '' '' @ name \<and>
             (CHR ''_'' \<notin> set device_name \<longrightarrow> arg_name args = ''Unassigned '' @ device_name))) \<and>
   (LutronCasetaDevice_init serial_to_unique_id entity_device bridge_device = Inr self \<and>
    entity_device ''serial'' \<noteq> None
      \<longrightarrow> (\<exists>device_name area name.
             entity_device ''name'' = Some (PStr device_name) \<and>
             area_and_name_from_name device_name = Inr (area, name) \<and>
             dev_display_name self = Some (area @ '' '' @ name) \<and>
             (CHR ''_'' \<notin> set device_name \<longrightarrow>
                dev_display_name self = Some (''Unassigned '' @ device_name))))"
proof (intro conjI impI)
  assume "button_device_args config_entry_id bridge_device button_group_to_device_map device
            = Inr args"
  from button_device_args_Inr [OF this]
  obtain device_name area name
    where dn: "device ''name'' = Some (PStr device_name)"
      and parse: "area_and_name_from_name device_name = Inr (area, name)"
      and nm: "arg_name args = area @ '' '' @ name"
    by blast
  have "CHR ''_'' \<notin> set device_name \<longrightarrow> arg_name args = ''Unassigned '' @ device_name"
    using parse nm area_and_name_from_name_fallback [of device_name]
    by (auto simp: UNASSIGNED_AREA_def)
  with dn parse nm show "\<exists>device_name area name.
             device ''name'' = Some (PStr device_name) \<and>
             area_and_name_from_name device_name = Inr (area, name) \<and>
             arg_name args = area @ '' '' @ name \<and>
             (CHR ''_'' \<notin> set device_name \<longrightarrow> arg_name args = ''Unassigned '' @ device_name)"
    by blast
next
  assume "LutronCasetaDevice_init serial_to_unique_id entity_device bridge_device = Inr self \<and>
    entity_device ''serial'' \<noteq> None"
  then obtain device_name area name
    where dn: "entity_device ''name'' = Some (PStr device_name)"
      and parse: "area_and_name_from_name device_name = Inr (area, name)"
      and nm: "dev_display_name self = Some (area @ '' '' @ name)"
    using LutronCasetaDevice_init_Inr by blast
  have "CHR ''_'' \<notin> set device_name \<longrightarrow>
          dev_display_name self = Some (''Unassigned '' @ device_name)"
    using parse nm area_and_name_from_name_fallback [of device_name]
    by (auto simp: UNASSIGNED_AREA_def)
  with dn parse nm show "\<exists>device_name area name.
             entity_device ''name'' = Some (PStr device_name) \<and>
             area_and_name_from_name device_name = Inr (area, name) \<and>
             dev_display_name self = Some (area @ '' '' @ name) \<and>
             (CHR ''_'' \<notin> set device_name \<longrightarrow>
                dev_display_name self = Some (''Unassigned '' @ device_name))"
    by blast
qed

theorem display_name_area_space_name_witness:
  "(\<exists>args.
      button_device_args ''entry'' [''serial'' \<mapsto> PInt 1234] Map.empty
        [''type'' \<mapsto> PStr ''Pico3ButtonRaiseLower2'', ''serial'' \<mapsto> PInt 77,
         ''name'' \<mapsto> PStr ''Pico'', ''model'' \<mapsto> PStr ''PJ2''] = Inr args \<and>
      arg_name args = ''Unassigned Pico'') \<and>
   (\<exists>self.
      LutronCasetaDevice_init (\<lambda>serial. Inr (py_str serial))
        [''serial'' \<mapsto> PInt 77, ''name'' \<mapsto> PStr ''Kitchen_Main_Lights'',
         ''model'' \<mapsto> PStr ''PD-6WCL'', ''type'' \<mapsto> PStr ''WallDimmer'']
        [''serial'' \<mapsto> PInt 1234] = Inr self \<and>
      dev_display_name self = Some ''Kitchen Main_Lights'')"
proof (rule conjI)
  let ?device = "[''type'' \<mapsto> PStr ''Pico3ButtonRaiseLower2'', ''serial'' \<mapsto> PInt 77,
         ''name'' \<mapsto> PStr ''Pico'', ''model'' \<mapsto> PStr ''PJ2'']"
  let ?args = "button_device_args ''entry'' [''serial'' \<mapsto> PInt 1234] Map.empty ?device"
  have "\<exists>args. ?args = Inr args"
    by (simp add: py_eval lutron_eval)
  then obtain args where a: "?args = Inr args" ..
  from display_name_area_space_name [THEN conjunct1, rule_format, OF a]
  have "arg_name args = ''Unassigned Pico''"
    by auto
  with a show "\<exists>args. ?args = Inr args \<and> arg_name args = ''Unassigned Pico''"
    by blast
next
  let ?device = "[''serial'' \<mapsto> PInt 77, ''name'' \<mapsto> PStr ''Kitchen_Main_Lights'',
         ''model'' \<mapsto> PStr ''PD-6WCL'', ''type'' \<mapsto> PStr ''WallDimmer'']"
  let ?init = "LutronCasetaDevice_init (\<lambda>serial. Inr (py_str serial)) ?device
        [''serial'' \<mapsto> PInt 1234]"
  have parse: "area_and_name_from_name ''Kitchen_Main_Lights'' = Inr (''Kitchen'', ''Main_Lights'')"
    by (simp add: py_eval lutron_eval)
  have "\<exists>self. ?init = Inr self"
    by (simp add: LutronCasetaDevice_init_def handle_none_serial_def py_eval lutron_eval)
  then obtain self where init: "?init = Inr self" ..
  have "?init = Inr self \<and> ?device ''serial'' \<noteq> None"
    using init by simp
  from display_name_area_space_name [THEN conjunct2, rule_format, OF this]
  have "dev_display_name self = Some ''Kitchen Main_Lights''"
    using parse by auto
  with init show "\<exists>self. ?init = Inr self \<and> dev_display_name self = Some ''Kitchen Main_Lights''"
    by blast
qed

section \<open>Migration of the occupancy-group unique ids\<close>

lemma py_startswith_iff: "py_startswith s p \<longleftrightarrow> (\<exists>r. s = p @ r)"
  unfolding py_startswith_def
  by (metis append_eq_conv_conj append_take_drop_id)

lemma py_startswith_append: "py_startswith (p @ r) p"
  by (simp add: py_startswith_def)

lemma hd_py_split:
  "n \<noteq> 0 \<Longrightarrow> hd (py_split sep n s) = takeWhile (\<lambda>c. c \<noteq> sep) s"
  by (induction s) (auto split: list.splits simp: py_split_nonempty)

lemma py_index_1_hd: "ys \<noteq> [] \<Longrightarrow> py_index (x # ys) 1 = Inr (hd ys)"
  by (cases ys) (simp_all add: py_index_def)

lemma second_segment:
  "py_index (py_split (CHR ''_'') (- 1) (''occupancygroup_'' @ rest)) 1
     = Inr (takeWhile (\<lambda>c. c \<noteq> CHR ''_'') rest)"
proof -
  have "py_split (CHR ''_'') (- 1) (''occupancygroup'' @ CHR ''_'' # rest)
          = ''occupancygroup'' # py_split (CHR ''_'') (- 1 - 1) rest"
    by (rule py_split_first) simp_all
  then show ?thesis
    by (simp add: py_index_1_hd py_split_nonempty hd_py_split)
qed

lemma async_migrator_unchanged:
  "unique_id = [] \<or> \<not> py_startswith unique_id ''occupancygroup_'' \<or>
   py_startswith unique_id (''occupancygroup_'' @ py_str b)
   \<Longrightarrow> async_migrator get upd b reg unique_id = (Inr None, reg)"
  by (auto simp: async_migrator_def)

lemma async_migrator_new:
  assumes "unique_id = ''occupancygroup_'' @ rest"
    and "\<not> py_startswith unique_id (''occupancygroup_'' @ py_str b)"
  shows "async_migrator get upd b reg unique_id =
           (Inr (Some (''occupancygroup_'' @ py_str b @ ''_'' @ takeWhile (\<lambda>c. c \<noteq> CHR ''_'') rest)),
            (case get reg {(DOMAIN, unique_id)} of
               Some dev_entry \<Rightarrow> upd reg dev_entry
                 {(DOMAIN, ''occupancygroup_'' @ py_str b @ ''_'' @ takeWhile (\<lambda>c. c \<noteq> CHR ''_'') rest)}
             | None \<Rightarrow> reg))"
proof -
  have sw: "py_startswith unique_id ''occupancygroup_''"
    using assms(1) py_startswith_iff by blast
  have ne: "unique_id \<noteq> []"
    using assms(1) by simp
  have seg: "py_index (py_split (CHR ''_'') (- 1) unique_id) 1
               = Inr (takeWhile (\<lambda>c. c \<noteq> CHR ''_'') rest)"
    unfolding assms(1) by (rule second_segment)
  have "async_migrator get upd b reg unique_id =
          (case py_index (py_split (CHR ''_'') (- 1) unique_id) 1 of
              Inl e \<Rightarrow> (Inl e, reg)
            | Inr sensor_id \<Rightarrow>
                (let new_unique_id = ''occupancygroup_'' @ py_str b @ ''_'' @ sensor_id;
                     dev_reg' = (case get reg {(DOMAIN, unique_id)} of
                                   Some dev_entry \<Rightarrow> upd reg dev_entry {(DOMAIN, new_unique_id)}
                                 | None \<Rightarrow> reg)
                 in (Inr (Some (''occupancygroup_'' @ py_str b @ ''_'' @ sensor_id)), dev_reg')))"
    unfolding async_migrator_def using sw ne assms(2) by (simp only: if_False if_True simp_thms)
  also have "\<dots> = (Inr (Some (''occupancygroup_'' @ py_str b @ ''_'' @ takeWhile (\<lambda>c. c \<noteq> CHR ''_'') rest)),
            (case get reg {(DOMAIN, unique_id)} of
               Some dev_entry \<Rightarrow> upd reg dev_entry
                 {(DOMAIN, ''occupancygroup_'' @ py_str b @ ''_'' @ takeWhile (\<lambda>c. c \<noteq> CHR ''_'') rest)}
             | None \<Rightarrow> reg))"
    unfolding seg by (simp only: sum.case Let_def)
  finally show ?thesis .
qed

lemma async_migrator_cases:
  "async_migrator get upd b reg unique_id = (Inr None, reg) \<or>
   (\<exists>rest. unique_id = ''occupancygroup_'' @ rest \<and>
      \<not> py_startswith unique_id (''occupancygroup_'' @ py_str b))"
proof (cases "py_startswith unique_id ''occupancygroup_''")
  case False
  then have "async_migrator get upd b reg unique_id = (Inr None, reg)"
    by (intro async_migrator_unchanged disjI2 disjI1)
  then show ?thesis ..
next
  case sw: True
  show ?thesis
  proof (cases "py_startswith unique_id (''occupancygroup_'' @ py_str b)")
    case True
    then have "async_migrator get upd b reg unique_id = (Inr None, reg)"
      by (intro async_migrator_unchanged disjI2)
    then show ?thesis ..
  next
    case False
    from sw obtain rest where "unique_id = ''occupancygroup_'' @ rest"
      unfolding py_startswith_iff ..
    with False show ?thesis
      by (intro disjI2 exI [of _ rest] conjI)
  qed
qed

lemma new_unique_id_startswith:
  "py_startswith (''occupancygroup_'' @ b @ ''_'' @ sensor_id) (''occupancygroup_'' @ b)"
proof -
  have "''occupancygroup_'' @ b @ ''_'' @ sensor_id = (''occupancygroup_'' @ b) @ (''_'' @ sensor_id)"
    by simp
  then show ?thesis
    by (simp only: py_startswith_append)
qed

lemma async_migrator_again:
  "async_migrator get upd b reg (''occupancygroup_'' @ py_str b @ ''_'' @ sensor_id)
     = (Inr None, reg)"
  by (rule async_migrator_unchanged) (simp only: new_unique_id_startswith simp_thms)

lemma async_migrator_returns:
  "\<exists>result reg'. async_migrator get upd b reg unique_id = (Inr result, reg')"
proof -
  from async_migrator_cases [of get upd b reg unique_id]
  show ?thesis
  proof
    assume "async_migrator get upd b reg unique_id = (Inr None, reg)"
    then show ?thesis by blast
  next
    assume "\<exists>rest. unique_id = ''occupancygroup_'' @ rest \<and>
      \<not> py_startswith unique_id (''occupancygroup_'' @ py_str b)"
    then obtain rest where "unique_id = ''occupancygroup_'' @ rest"
      and "\<not> py_startswith unique_id (''occupancygroup_'' @ py_str b)"
      by blast
    from async_migrator_new [OF this, of get upd reg] show ?thesis by blast
  qed
qed

text \<open>
  C9. The migrator returns \<^verbatim>\<open>None\<close> and leaves the device registry alone for a unique
  id that is empty, does not start with "occupancygroup\_", or already starts with
  "occupancygroup\_" followed by the bridge's unique id. Any new unique id it returns is
  "occupancygroup\_", the bridge's unique id, an underscore and the second
  underscore-separated segment of the old id; it starts with "occupancygroup\_" followed
  by the bridge's unique id, so the migrator returns \<^verbatim>\<open>None\<close> on it. The migrator never
  raises, and migrating an entry that has been migrated changes nothing.
\<close>

theorem migrator_idempotent:
  "(unique_id = [] \<or> \<not> py_startswith unique_id ''occupancygroup_'' \<or>
    py_startswith unique_id (''occupancygroup_'' @ py_str bridge_unique_id)
      \<longrightarrow> async_migrator get upd bridge_unique_id reg unique_id = (Inr None, reg)) \<and>
   (async_migrator get upd bridge_unique_id reg unique_id = (Inr (Some new_unique_id), reg')
      \<longrightarrow> (\<exists>rest. unique_id = ''occupancygroup_'' @ rest \<and>
             new_unique_id = ''occupancygroup_'' @ py_str bridge_unique_id @ ''_'' @
                             takeWhile (\<lambda>c. c \<noteq> CHR ''_'') rest) \<and>
          py_startswith new_unique_id (''occupancygroup_'' @ py_str bridge_unique_id) \<and>
          async_migrator get upd bridge_unique_id reg' new_unique_id = (Inr None, reg')) \<and>
   (\<exists>result reg''. async_migrator get upd bridge_unique_id reg unique_id = (Inr result, reg'')) \<and>
   (\<exists>st. migrate_entry get upd bridge_unique_id (reg, unique_id) = Inr st \<and>
         migrate_entry get upd bridge_unique_id st = Inr st)"
proof (intro conjI impI)
  assume "unique_id = [] \<or> \<not> py_startswith unique_id ''occupancygroup_'' \<or>
    py_startswith unique_id (''occupancygroup_'' @ py_str bridge_unique_id)"
  then show "async_migrator get upd bridge_unique_id reg unique_id = (Inr None, reg)"
    by (rule async_migrator_unchanged)
next
  assume new: "async_migrator get upd bridge_unique_id reg unique_id
                 = (Inr (Some new_unique_id), reg')"
  with async_migrator_cases [of get upd bridge_unique_id reg unique_id]
  obtain rest where rest: "unique_id = ''occupancygroup_'' @ rest"
    and old: "\<not> py_startswith unique_id (''occupancygroup_'' @ py_str bridge_unique_id)"
    by auto
  from async_migrator_new [OF rest old, of get upd reg] new
  have nid: "new_unique_id = ''occupancygroup_'' @ py_str bridge_unique_id @ ''_'' @
                             takeWhile (\<lambda>c. c \<noteq> CHR ''_'') rest"
    by (simp only: prod.inject sum.inject option.inject)
  with rest show "\<exists>rest. unique_id = ''occupancygroup_'' @ rest \<and>
             new_unique_id = ''occupancygroup_'' @ py_str bridge_unique_id @ ''_'' @
                             takeWhile (\<lambda>c. c \<noteq> CHR ''_'') rest"
    by blast
  show "py_startswith new_unique_id (''occupancygroup_'' @ py_str bridge_unique_id)"
    unfolding nid by (rule new_unique_id_startswith)
  show "async_migrator get upd bridge_unique_id reg' new_unique_id = (Inr None, reg')"
    unfolding nid by (rule async_migrator_again)
next
  show "\<exists>result reg''. async_migrator get upd bridge_unique_id reg unique_id = (Inr result, reg'')"
    by (rule async_migrator_returns)
next
  show "\<exists>st. migrate_entry get upd bridge_unique_id (reg, unique_id) = Inr st \<and>
         migrate_entry get upd bridge_unique_id st = Inr st"
  proof (cases "async_migrator get upd bridge_unique_id reg unique_id = (Inr None, reg)")
    case True
    then show ?thesis by (simp add: migrate_entry_def)
  next
    case False
    with async_migrator_cases [of get upd bridge_unique_id reg unique_id]
    obtain rest where rest: "unique_id = ''occupancygroup_'' @ rest"
      and old: "\<not> py_startswith unique_id (''occupancygroup_'' @ py_str bridge_unique_id)"
      by auto
    define new_id where "new_id = ''occupancygroup_'' @ py_str bridge_unique_id @ ''_'' @
                  takeWhile (\<lambda>c. c \<noteq> CHR ''_'') rest"
    define new_reg where "new_reg = (case get reg {(DOMAIN, unique_id)} of
                  Some dev_entry \<Rightarrow> upd reg dev_entry {(DOMAIN, new_id)}
                | None \<Rightarrow> reg)"
    have "async_migrator get upd bridge_unique_id reg unique_id = (Inr (Some new_id), new_reg)"
      unfolding new_id_def new_reg_def by (rule async_migrator_new [OF rest old])
    then have first: "migrate_entry get upd bridge_unique_id (reg, unique_id) = Inr (new_reg, new_id)"
      by (simp add: migrate_entry_def)
    have "async_migrator get upd bridge_unique_id new_reg new_id = (Inr None, new_reg)"
      unfolding new_id_def by (rule async_migrator_again)
    then have "migrate_entry get upd bridge_unique_id (new_reg, new_id) = Inr (new_reg, new_id)"
      by (simp add: migrate_entry_def)
    with first show ?thesis by blast
  qed
qed

theorem migrator_idempotent_witness:
  "async_migrator (\<lambda>reg ids. Some ()) (\<lambda>reg dev ids. Suc reg) (PStr ''0a1b'') 0
     ''occupancygroup_5'' = (Inr (Some ''occupancygroup_0a1b_5''), 1) \<and>
   async_migrator (\<lambda>reg ids. Some ()) (\<lambda>reg dev ids. Suc reg) (PStr ''0a1b'') 1
     ''occupancygroup_0a1b_5'' = (Inr None, 1) \<and>
   async_migrator (\<lambda>reg ids. Some ()) (\<lambda>reg dev ids. Suc reg) (PStr ''0a1b'') 0
     ''light_5'' = (Inr None, 0)"
proof -
  have first: "async_migrator (\<lambda>reg ids. Some ()) (\<lambda>reg dev ids. Suc reg) (PStr ''0a1b'') 0
     ''occupancygroup_5'' = (Inr (Some ''occupancygroup_0a1b_5''), 1)"
    by (simp add: async_migrator_def py_eval)
  have other: "\<not> py_startswith ''light_5'' ''occupancygroup_''"
    by (simp add: py_startswith_def)
  from migrator_idempotent [of "''occupancygroup_5''" "PStr ''0a1b''" "\<lambda>reg ids. Some ()"
      "\<lambda>reg dev ids. Suc reg" 0 "''occupancygroup_0a1b_5''" 1] first
  have second: "async_migrator (\<lambda>reg ids. Some ()) (\<lambda>reg dev ids. Suc reg) (PStr ''0a1b'') 1
     ''occupancygroup_0a1b_5'' = (Inr None, 1)"
    by blast
  from migrator_idempotent [of "''light_5''" "PStr ''0a1b''" "\<lambda>reg ids. Some ()"
      "\<lambda>reg dev ids. Suc reg" 0] other
  have third: "async_migrator (\<lambda>reg ids. Some ()) (\<lambda>reg dev ids. Suc reg) (PStr ''0a1b'') 0
     ''light_5'' = (Inr None, 0)"
    by blast
  from first second third show ?thesis by blast
qed

section \<open>The volume response of the receiver\<close>

lemma slice_after_MVMAX:
  "py_slice line (length ''MVMAX '') (length ''MVMAX XX'') = take 2 (drop 6 line)"
  by (simp add: py_slice_def eval_nat_numeral)

lemma slice_after_MV:
  "py_slice line (length ''MV'') (length ''MVXX'') = take 2 (drop 2 line)"
  by (simp add: py_slice_def eval_nat_numeral)

lemma handle_volume_line_max:
  "py_startswith line ''MVMAX '' \<Longrightarrow> py_int_of_str (take 2 (drop 6 line)) = Inr v \<Longrightarrow>
   handle_volume_line self line = Inr (self\<lparr>mc_volume_max := v\<rparr>)"
  unfolding handle_volume_line_def slice_after_MVMAX by simp

lemma handle_volume_line_vol:
  "\<not> py_startswith line ''MVMAX '' \<Longrightarrow> py_startswith line ''MV'' \<Longrightarrow>
   py_int_of_str (take 2 (drop 2 line)) = Inr v \<Longrightarrow>
   handle_volume_line self line = Inr (self\<lparr>mc_volume := v\<rparr>)"
  unfolding handle_volume_line_def slice_after_MV by simp

lemma handle_volume_line_other:
  "\<not> py_startswith line ''MVMAX '' \<Longrightarrow> \<not> py_startswith line ''MV'' \<Longrightarrow>
   handle_volume_line self line = Inr self"
  by (simp add: handle_volume_line_def)

lemma handle_volume_line_raises:
  "py_startswith line ''MVMAX '' \<and> py_int_of_str (take 2 (drop 6 line)) = Inl e \<or>
   \<not> py_startswith line ''MVMAX '' \<and> py_startswith line ''MV'' \<and>
     py_int_of_str (take 2 (drop 2 line)) = Inl e \<Longrightarrow>
   handle_volume_line self line = Inl e"
  unfolding handle_volume_line_def slice_after_MVMAX slice_after_MV by auto

text \<open>A line that raises ends the call; the device keeps what the earlier lines set.\<close>

lemma handle_volume_response_raises:
  assumes "handle_volume_line self line = Inl e"
  shows "handle_volume_response self (line # response) = (Inl e, self)"
  using assms by simp

text \<open>The loop over any two kinds of lines that set two fields.\<close>

lemma volume_loop:
  fixes ismax isvol :: "string \<Rightarrow> bool" and pmax pvol :: "string \<Rightarrow> py_error + int"
  assumes step_max: "\<And>self l v. ismax l \<Longrightarrow> pmax l = Inr v \<Longrightarrow>
              handle_volume_line self l = Inr (self\<lparr>mc_volume_max := v\<rparr>)"
    and step_vol: "\<And>self l v. \<not> ismax l \<Longrightarrow> isvol l \<Longrightarrow> pvol l = Inr v \<Longrightarrow>
              handle_volume_line self l = Inr (self\<lparr>mc_volume := v\<rparr>)"
    and step_other: "\<And>self l. \<not> ismax l \<Longrightarrow> \<not> isvol l \<Longrightarrow> handle_volume_line self l = Inr self"
    and ok_max: "\<forall>l \<in> set response. ismax l \<longrightarrow> (\<exists>v. pmax l = Inr v)"
    and ok_vol: "\<forall>l \<in> set response. \<not> ismax l \<and> isvol l \<longrightarrow> (\<exists>v. pvol l = Inr v)"
  shows "\<exists>self'. handle_volume_response self response = (Inr (mc_volume self'), self') \<and>
           self' = self\<lparr>mc_volume := mc_volume self', mc_volume_max := mc_volume_max self'\<rparr> \<and>
           (if filter ismax response = [] then mc_volume_max self' = mc_volume_max self
            else pmax (last (filter ismax response)) = Inr (mc_volume_max self')) \<and>
           (if filter (\<lambda>l. \<not> ismax l \<and> isvol l) response = [] then mc_volume self' = mc_volume self
            else pvol (last (filter (\<lambda>l. \<not> ismax l \<and> isvol l) response)) = Inr (mc_volume self'))"
  using ok_max ok_vol
proof (induction response arbitrary: self)
  case Nil
  show ?case by simp
next
  case (Cons line response)
  from Cons.prems have okm: "\<forall>l \<in> set response. ismax l \<longrightarrow> (\<exists>v. pmax l = Inr v)"
    and okv: "\<forall>l \<in> set response. \<not> ismax l \<and> isvol l \<longrightarrow> (\<exists>v. pvol l = Inr v)"
    by simp_all
  consider (max) "ismax line" | (vol) "\<not> ismax line" "isvol line" | (other) "\<not> ismax line" "\<not> isvol line"
    by blast
  then show ?case
  proof cases
    case max
    with Cons.prems obtain v where v: "pmax line = Inr v" by auto
    from Cons.IH [OF okm okv, of "self\<lparr>mc_volume_max := v\<rparr>"]
    obtain self' where
      run: "handle_volume_response (self\<lparr>mc_volume_max := v\<rparr>) response = (Inr (mc_volume self'), self')"
      and eq: "self' = self\<lparr>mc_volume_max := v\<rparr>\<lparr>mc_volume := mc_volume self', mc_volume_max := mc_volume_max self'\<rparr>"
      and m: "if filter ismax response = [] then mc_volume_max self' = mc_volume_max (self\<lparr>mc_volume_max := v\<rparr>)
            else pmax (last (filter ismax response)) = Inr (mc_volume_max self')"
      and vl: "if filter (\<lambda>l. \<not> ismax l \<and> isvol l) response = [] then mc_volume self' = mc_volume (self\<lparr>mc_volume_max := v\<rparr>)
            else pvol (last (filter (\<lambda>l. \<not> ismax l \<and> isvol l) response)) = Inr (mc_volume self')"
      by blast
    have 1: "handle_volume_response self (line # response) = (Inr (mc_volume self'), self')"
      using step_max [OF max v, of self] run by simp
    have 2: "self' = self\<lparr>mc_volume := mc_volume self', mc_volume_max := mc_volume_max self'\<rparr>"
      by (subst eq) simp
    have 3: "pmax (last (filter ismax (line # response))) = Inr (mc_volume_max self')"
      using m max v by (auto split: if_splits)
    have 4: "if filter (\<lambda>l. \<not> ismax l \<and> isvol l) (line # response) = [] then mc_volume self' = mc_volume self
            else pvol (last (filter (\<lambda>l. \<not> ismax l \<and> isvol l) (line # response))) = Inr (mc_volume self')"
      using vl max by (auto split: if_splits)
    from 1 2 3 4 max show ?thesis
      by (intro exI [of _ self']) simp
  next
    case vol
    with Cons.prems obtain v where v: "pvol line = Inr v" by auto
    from Cons.IH [OF okm okv, of "self\<lparr>mc_volume := v\<rparr>"]
    obtain self' where
      run: "handle_volume_response (self\<lparr>mc_volume := v\<rparr>) response = (Inr (mc_volume self'), self')"
      and eq: "self' = self\<lparr>mc_volume := v\<rparr>\<lparr>mc_volume := mc_volume self', mc_volume_max := mc_volume_max self'\<rparr>"
      and m: "if filter ismax response = [] then mc_volume_max self' = mc_volume_max (self\<lparr>mc_volume := v\<rparr>)
            else pmax (last (filter ismax response)) = Inr (mc_volume_max self')"
      and vl: "if filter (\<lambda>l. \<not> ismax l \<and> isvol l) response = [] then mc_volume self' = mc_volume (self\<lparr>mc_volume := v\<rparr>)
            else pvol (last (filter (\<lambda>l. \<not> ismax l \<and> isvol l) response)) = Inr (mc_volume self')"
      by blast
    have 1: "handle_volume_response self (line # response) = (Inr (mc_volume self'), self')"
      using step_vol [OF vol v, of self] run by simp
    have 2: "self' = self\<lparr>mc_volume := mc_volume self', mc_volume_max := mc_volume_max self'\<rparr>"
      by (subst eq) simp
    have 3: "if filter ismax (line # response) = [] then mc_volume_max self' = mc_volume_max self
            else pmax (last (filter ismax (line # response))) = Inr (mc_volume_max self')"
      using m vol by (auto split: if_splits)
    have 4: "pvol (last (filter (\<lambda>l. \<not> ismax l \<and> isvol l) (line # response))) = Inr (mc_volume self')"
      using vl vol v by (auto split: if_splits)
    from 1 2 3 4 vol show ?thesis
      by (intro exI [of _ self']) simp
  next
    case other
    from Cons.IH [OF okm okv, of self]
    obtain self' where
      run: "handle_volume_response self response = (Inr (mc_volume self'), self')"
      and eq: "self' = self\<lparr>mc_volume := mc_volume self', mc_volume_max := mc_volume_max self'\<rparr>"
      and m: "if filter ismax response = [] then mc_volume_max self' = mc_volume_max self
            else pmax (last (filter ismax response)) = Inr (mc_volume_max self')"
      and vl: "if filter (\<lambda>l. \<not> ismax l \<and> isvol l) response = [] then mc_volume self' = mc_volume self
            else pvol (last (filter (\<lambda>l. \<not> ismax l \<and> isvol l) response)) = Inr (mc_volume self')"
      by blast
    have 1: "handle_volume_response self (line # response) = (Inr (mc_volume self'), self')"
      using step_other [OF other, of self] run by simp
    from 1 eq m vl other show ?thesis
      by (intro exI [of _ self']) simp
  qed
qed

text \<open>
  C4. Let every line of the response that starts with "MVMAX " have an integer in the two
  characters after that prefix, and every other line that starts with "MV" an integer in
  the two characters after "MV". Then \<^verbatim>\<open>handle_volume_response\<close> returns the final
  volume and changes no other attribute than the volume and the maximal volume: the
  maximal volume is the integer of the last line starting with "MVMAX " (unchanged when
  there is none), the volume is the integer of the last other line starting with "MV"
  (unchanged when there is none), and lines with neither prefix change nothing. Only the
  two characters after the prefix are read.
\<close>

theorem handle_volume_response_last_wins:
  assumes "\<forall>line \<in> set response. py_startswith line ''MVMAX '' \<longrightarrow>
             (\<exists>v. py_int_of_str (take 2 (drop 6 line)) = Inr v)"
    and "\<forall>line \<in> set response. \<not> py_startswith line ''MVMAX '' \<and> py_startswith line ''MV'' \<longrightarrow>
             (\<exists>v. py_int_of_str (take 2 (drop 2 line)) = Inr v)"
  shows "\<exists>self'.
           handle_volume_response self response = (Inr (mc_volume self'), self') \<and>
           self' = self\<lparr>mc_volume := mc_volume self', mc_volume_max := mc_volume_max self'\<rparr> \<and>
           (if filter (\<lambda>line. py_startswith line ''MVMAX '') response = []
            then mc_volume_max self' = mc_volume_max self
            else py_int_of_str (take 2 (drop 6
                   (last (filter (\<lambda>line. py_startswith line ''MVMAX '') response))))
                 = Inr (mc_volume_max self')) \<and>
           (if filter (\<lambda>line. \<not> py_startswith line ''MVMAX '' \<and> py_startswith line ''MV'')
                 response = []
            then mc_volume self' = mc_volume self
            else py_int_of_str (take 2 (drop 2
                   (last (filter (\<lambda>line. \<not> py_startswith line ''MVMAX '' \<and>
                                          py_startswith line ''MV'') response))))
                 = Inr (mc_volume self'))"
  by (rule volume_loop [where ismax = "\<lambda>line. py_startswith line ''MVMAX ''"
        and isvol = "\<lambda>line. py_startswith line ''MV''"
        and pmax = "\<lambda>line. py_int_of_str (take 2 (drop 6 line))"
        and pvol = "\<lambda>line. py_int_of_str (take 2 (drop 2 line))",
        OF handle_volume_line_max handle_volume_line_vol handle_volume_line_other assms])

theorem handle_volume_response_last_wins_witness:
  "handle_volume_response
     \<lparr>mc_name = ''AVR'', mc_host = ''avr.local'', mc_pwstate = ''PWSTANDBY'', mc_volume = 0,
      mc_volume_max = 98, mc_source_list = Map.empty, mc_muted = False, mc_mediasource = [],
      mc_mediainfo = [], mc_should_setup_sources = True\<rparr>
     [''MVMAX 80'', ''MV45'', ''PWON'', ''MV505'']
   = (Inr 50,
      \<lparr>mc_name = ''AVR'', mc_host = ''avr.local'', mc_pwstate = ''PWSTANDBY'', mc_volume = 50,
       mc_volume_max = 80, mc_source_list = Map.empty, mc_muted = False, mc_mediasource = [],
       mc_mediainfo = [], mc_should_setup_sources = True\<rparr>)"
proof -
  let ?self = "\<lparr>mc_name = ''AVR'', mc_host = ''avr.local'', mc_pwstate = ''PWSTANDBY'',
      mc_volume = 0, mc_volume_max = 98, mc_source_list = Map.empty, mc_muted = False,
      mc_mediasource = [], mc_mediainfo = [], mc_should_setup_sources = True\<rparr>"
  let ?response = "[''MVMAX 80'', ''MV45'', ''PWON'', ''MV505'']"
  have ok_max: "\<forall>line \<in> set ?response. py_startswith line ''MVMAX '' \<longrightarrow>
             (\<exists>v. py_int_of_str (take 2 (drop 6 line)) = Inr v)"
    by (simp add: py_eval)
  have ok_vol: "\<forall>line \<in> set ?response.
             \<not> py_startswith line ''MVMAX '' \<and> py_startswith line ''MV'' \<longrightarrow>
             (\<exists>v. py_int_of_str (take 2 (drop 2 line)) = Inr v)"
    by (simp add: py_eval)
  from handle_volume_response_last_wins [OF ok_max ok_vol, of ?self]
  obtain self' where run: "handle_volume_response ?self ?response = (Inr (mc_volume self'), self')"
    and eq: "self' = ?self\<lparr>mc_volume := mc_volume self', mc_volume_max := mc_volume_max self'\<rparr>"
    and m: "if filter (\<lambda>line. py_startswith line ''MVMAX '') ?response = []
            then mc_volume_max self' = mc_volume_max ?self
            else py_int_of_str (take 2 (drop 6
                   (last (filter (\<lambda>line. py_startswith line ''MVMAX '') ?response))))
                 = Inr (mc_volume_max self')"
    and v: "if filter (\<lambda>line. \<not> py_startswith line ''MVMAX '' \<and> py_startswith line ''MV'')
                 ?response = []
            then mc_volume self' = mc_volume ?self
            else py_int_of_str (take 2 (drop 2
                   (last (filter (\<lambda>line. \<not> py_startswith line ''MVMAX '' \<and>
                                          py_startswith line ''MV'') ?response))))
                 = Inr (mc_volume self')"
    by blast
  from m have max: "mc_volume_max self' = 80"
    by (simp add: py_eval)
  from v have vol: "mc_volume self' = 50"
    by (simp add: py_eval)
  from eq max vol have "self' = ?self\<lparr>mc_volume := 50, mc_volume_max := 80\<rparr>"
    by simp
  with run vol show ?thesis by simp
qed

section \<open>Setting a pump preset\<close>

lemma pack_uint32_le_Inr:
  "0 \<le> v \<Longrightarrow> v < 2 ^ 32 \<Longrightarrow> \<exists>bs. pack_uint32_le v = Inr bs"
  by (simp add: pack_uint32_le_def)

lemma struct_pack_IIIII_not_ValueError: "struct_pack_IIIII a b c d e \<noteq> Inl ValueError"
  by (simp add: struct_pack_IIIII_def pack_uint32_le_def ebind_def)

lemma struct_pack_IIIII_Inr:
  assumes "0 \<le> a" "a < 2 ^ 32" "0 \<le> b" "b < 2 ^ 32" "0 \<le> c" "c < 2 ^ 32"
    "0 \<le> d" "d < 2 ^ 32" "0 \<le> e" "e < 2 ^ 32"
  shows "\<exists>bs. struct_pack_IIIII a b c d e = Inr bs"
  using assms by (simp add: struct_pack_IIIII_def pack_uint32_le_def)

lemma async_request_set_pump_flow_not_ValueError:
  "fst (async_request_set_pump_flow async_make_request body pumpID flow isRPMs gateway)
     \<noteq> Inl ValueError"
  using struct_pack_IIIII_not_ValueError [of 0 pumpID body flow "if isRPMs then 1 else 0"]
  by (auto simp: async_request_set_pump_flow_def split: sum.splits prod.splits)

lemma async_request_set_pump_flow_Inr:
  assumes "0 \<le> body" "body < 2 ^ 32" "0 \<le> pumpID" "pumpID < 2 ^ 32" "0 \<le> flow" "flow < 2 ^ 32"
  shows "\<exists>sent. fst (async_request_set_pump_flow async_make_request body pumpID flow isRPMs gateway)
           = Inr sent"
proof -
  have "\<exists>bs. struct_pack_IIIII 0 pumpID body flow (if isRPMs then 1 else 0) = Inr bs"
    by (rule struct_pack_IIIII_Inr) (use assms in simp_all)
  then obtain bs where "struct_pack_IIIII 0 pumpID body flow (if isRPMs then 1 else 0) = Inr bs" ..
  then show ?thesis
    by (simp add: async_request_set_pump_flow_def split: prod.splits)
qed

lemma is_valid_preset_eval:
  assumes "sl_pumps self (sl_pump_id self) = Some pump"
  shows "is_valid_preset self preset =
           (case pump_presets pump preset of
              None \<Rightarrow> Inr False
            | Some preset_data \<Rightarrow>
                (case preset_data ''cid'' of
                   None \<Rightarrow> Inl KeyError
                 | Some cid \<Rightarrow> Inr (cid \<noteq> PInt 0)))"
  using assms
  by (simp add: is_valid_preset_def pump_data_of_def py_getitem_def py_contains_def
      split: option.splits)

lemma is_valid_pumpflow_iff:
  "is_valid_pumpflow flow isRPMs \<longleftrightarrow>
     (if isRPMs then 1000 \<le> flow \<and> flow \<le> 3450 else 20 \<le> flow \<and> flow \<le> 90)"
  by (simp add: is_valid_pumpflow_def)

lemma async_set_preset_invalid:
  assumes "py_int preset_id = Inr preset"
    and "is_valid_preset self (PInt preset) = Inr False \<or>
         (\<exists>ok. is_valid_preset self (PInt preset) = Inr ok) \<and> \<not> is_valid_pumpflow flow isRPMs"
  shows "async_set_preset async_connect async_make_request self preset_id pumpID flow isRPMs gateway
           = (Inl ValueError, gateway)"
  using assms by (auto simp: async_set_preset_def)

lemma async_set_preset_valid:
  assumes "py_int preset_id = Inr preset"
    and "is_valid_preset self (PInt preset) = Inr True"
    and "is_valid_pumpflow flow isRPMs"
  shows "async_set_preset async_connect async_make_request self preset_id pumpID flow isRPMs gateway
           = (case async_connect gateway of
                (connected, gateway') \<Rightarrow>
                  if connected then
                    (case async_request_set_pump_flow async_make_request preset pumpID flow
                            isRPMs gateway' of
                       (Inl e, gateway'') \<Rightarrow> (Inl e, gateway'')
                     | (Inr sent, gateway'') \<Rightarrow> (Inr sent, gateway''))
                  else (Inr False, gateway'))"
  using assms by (auto simp: async_set_preset_def split: prod.splits sum.splits)

text \<open>
  C8. For a pump that the entity's pump id names, a preset id that \<^verbatim>\<open>int\<close> accepts,
  and presets that carry a \<^verbatim>\<open>cid\<close>: \<^verbatim>\<open>async_set_preset\<close> raises ValueError and leaves
  the gateway as it was (no connection is made and no request is sent) when the preset is
  not a key of the pump's presets, or its \<^verbatim>\<open>cid\<close> is 0, or the flow is outside 1000..3450
  for RPM or outside 20..90 otherwise. For a preset with a nonzero \<^verbatim>\<open>cid\<close> and a flow
  inside the range it does not raise ValueError, and when the pump number and the preset
  also fit the unsigned 32-bit fields of the request it returns a Boolean.
\<close>

theorem async_set_preset_validation:
  assumes pump: "sl_pumps self (sl_pump_id self) = Some pump"
    and preset: "py_int preset_id = Inr preset"
    and cid: "\<forall>preset_data. pump_presets pump (PInt preset) = Some preset_data
                \<longrightarrow> preset_data ''cid'' \<noteq> None"
  shows "(pump_presets pump (PInt preset) = None \<or>
          (\<exists>preset_data. pump_presets pump (PInt preset) = Some preset_data \<and>
                          preset_data ''cid'' = Some (PInt 0)) \<or>
          (isRPMs \<and> (flow < 1000 \<or> 3450 < flow)) \<or>
          (\<not> isRPMs \<and> (flow < 20 \<or> 90 < flow))
            \<longrightarrow> async_set_preset async_connect async_make_request self preset_id pumpID flow
                   isRPMs gateway = (Inl ValueError, gateway)) \<and>
         ((\<exists>preset_data cid. pump_presets pump (PInt preset) = Some preset_data \<and>
                              preset_data ''cid'' = Some cid \<and> cid \<noteq> PInt 0) \<and>
          (if isRPMs then 1000 \<le> flow \<and> flow \<le> 3450 else 20 \<le> flow \<and> flow \<le> 90)
            \<longrightarrow> fst (async_set_preset async_connect async_make_request self preset_id pumpID flow
                        isRPMs gateway) \<noteq> Inl ValueError \<and>
                (0 \<le> pumpID \<and> pumpID < 2 ^ 32 \<and> 0 \<le> preset \<and> preset < 2 ^ 32
                   \<longrightarrow> (\<exists>sent. fst (async_set_preset async_connect async_make_request self
                                       preset_id pumpID flow isRPMs gateway) = Inr sent)))"
proof (intro conjI impI)
  assume bad: "pump_presets pump (PInt preset) = None \<or>
          (\<exists>preset_data. pump_presets pump (PInt preset) = Some preset_data \<and>
                          preset_data ''cid'' = Some (PInt 0)) \<or>
          (isRPMs \<and> (flow < 1000 \<or> 3450 < flow)) \<or>
          (\<not> isRPMs \<and> (flow < 20 \<or> 90 < flow))"
  have total: "\<exists>ok. is_valid_preset self (PInt preset) = Inr ok"
    using cid by (auto simp: is_valid_preset_eval [OF pump] split: option.splits)
  from bad have "is_valid_preset self (PInt preset) = Inr False \<or>
                 \<not> is_valid_pumpflow flow isRPMs"
    by (auto simp: is_valid_preset_eval [OF pump] is_valid_pumpflow_iff)
  with total show "async_set_preset async_connect async_make_request self preset_id pumpID flow
                   isRPMs gateway = (Inl ValueError, gateway)"
    by (intro async_set_preset_invalid [OF preset]) blast
next
  assume good: "(\<exists>preset_data cid. pump_presets pump (PInt preset) = Some preset_data \<and>
                              preset_data ''cid'' = Some cid \<and> cid \<noteq> PInt 0) \<and>
          (if isRPMs then 1000 \<le> flow \<and> flow \<le> 3450 else 20 \<le> flow \<and> flow \<le> 90)"
  then have vp: "is_valid_preset self (PInt preset) = Inr True"
    by (auto simp: is_valid_preset_eval [OF pump])
  from good have vf: "is_valid_pumpflow flow isRPMs"
    by (simp add: is_valid_pumpflow_iff)
  note run = async_set_preset_valid [OF preset vp vf, of async_connect async_make_request pumpID gateway]
  show "fst (async_set_preset async_connect async_make_request self preset_id pumpID flow
                        isRPMs gateway) \<noteq> Inl ValueError"
  proof (cases "async_connect gateway")
    case (Pair connected gateway')
    show ?thesis
      using async_request_set_pump_flow_not_ValueError
              [of async_make_request preset pumpID flow isRPMs gateway']
      by (auto simp: run Pair split: prod.splits sum.splits)
  qed
  assume range: "0 \<le> pumpID \<and> pumpID < 2 ^ 32 \<and> 0 \<le> preset \<and> preset < 2 ^ 32"
  from good have fl: "0 \<le> flow" "flow < 2 ^ 32"
    by (auto split: if_splits)
  show "\<exists>sent. fst (async_set_preset async_connect async_make_request self
                                       preset_id pumpID flow isRPMs gateway) = Inr sent"
  proof (cases "async_connect gateway")
    case (Pair connected gateway')
    from range fl obtain sent where
      "fst (async_request_set_pump_flow async_make_request preset pumpID flow isRPMs gateway')
         = Inr sent"
      using async_request_set_pump_flow_Inr [of preset pumpID flow async_make_request isRPMs gateway']
      by auto
    then show ?thesis
      by (auto simp: run Pair split: prod.splits sum.splits)
  qed
qed

theorem async_set_preset_validation_witness:
  "async_set_preset (\<lambda>g. (True, g @ [''connect''])) (\<lambda>g code payload. ([], g @ [''request'']))
     \<lparr>sl_pumps = [PInt 0 \<mapsto> \<lparr>pump_presets =
          [PInt 1 \<mapsto> [''cid'' \<mapsto> PInt 6, ''setPoint'' \<mapsto> PInt 2500, ''isRPM'' \<mapsto> PInt 1],
           PInt 2 \<mapsto> [''cid'' \<mapsto> PInt 0, ''setPoint'' \<mapsto> PInt 30, ''isRPM'' \<mapsto> PInt 0]]\<rparr>],
      sl_pump_id = PInt 0, sl_flow_type = ''rpm'', sl_preset_id = PInt 1, sl_isRPMs = True\<rparr>
     (PInt 1) 0 5000 True [] = (Inl ValueError, []) \<and>
   async_set_preset (\<lambda>g. (True, g @ [''connect''])) (\<lambda>g code payload. ([], g @ [''request'']))
     \<lparr>sl_pumps = [PInt 0 \<mapsto> \<lparr>pump_presets =
          [PInt 1 \<mapsto> [''cid'' \<mapsto> PInt 6, ''setPoint'' \<mapsto> PInt 2500, ''isRPM'' \<mapsto> PInt 1],
           PInt 2 \<mapsto> [''cid'' \<mapsto> PInt 0, ''setPoint'' \<mapsto> PInt 30, ''isRPM'' \<mapsto> PInt 0]]\<rparr>],
      sl_pump_id = PInt 0, sl_flow_type = ''rpm'', sl_preset_id = PInt 1, sl_isRPMs = True\<rparr>
     (PInt 2) 0 30 False [] = (Inl ValueError, []) \<and>
   (\<exists>sent. fst (async_set_preset (\<lambda>g. (True, g @ [''connect'']))
        (\<lambda>g code payload. ([], g @ [''request'']))
     \<lparr>sl_pumps = [PInt 0 \<mapsto> \<lparr>pump_presets =
          [PInt 1 \<mapsto> [''cid'' \<mapsto> PInt 6, ''setPoint'' \<mapsto> PInt 2500, ''isRPM'' \<mapsto> PInt 1],
           PInt 2 \<mapsto> [''cid'' \<mapsto> PInt 0, ''setPoint'' \<mapsto> PInt 30, ''isRPM'' \<mapsto> PInt 0]]\<rparr>],
      sl_pump_id = PInt 0, sl_flow_type = ''rpm'', sl_preset_id = PInt 1, sl_isRPMs = True\<rparr>
     (PInt 1) 0 2500 True []) = Inr sent)"
proof -
  let ?pump = "\<lparr>pump_presets =
          [PInt 1 \<mapsto> [''cid'' \<mapsto> PInt 6, ''setPoint'' \<mapsto> PInt 2500, ''isRPM'' \<mapsto> PInt 1],
           PInt 2 \<mapsto> [''cid'' \<mapsto> PInt 0, ''setPoint'' \<mapsto> PInt 30, ''isRPM'' \<mapsto> PInt 0]]\<rparr>"
  let ?self = "\<lparr>sl_pumps = [PInt 0 \<mapsto> ?pump],
      sl_pump_id = PInt 0, sl_flow_type = ''rpm'', sl_preset_id = PInt 1, sl_isRPMs = True\<rparr>"
  have pump: "sl_pumps ?self (sl_pump_id ?self) = Some ?pump"
    by simp
  have p1: "py_int (PInt 1) = Inr 1" and p2: "py_int (PInt 2) = Inr 2"
    by (simp_all add: py_int_def)
  have c1: "\<forall>preset_data. pump_presets ?pump (PInt 1) = Some preset_data
              \<longrightarrow> preset_data ''cid'' \<noteq> None"
    by auto
  have c2: "\<forall>preset_data. pump_presets ?pump (PInt 2) = Some preset_data
              \<longrightarrow> preset_data ''cid'' \<noteq> None"
    by auto
  note v1 = async_set_preset_validation [OF pump p1 c1]
  note v2 = async_set_preset_validation [OF pump p2 c2]
  have a: "async_set_preset (\<lambda>g. (True, g @ [''connect''])) (\<lambda>g code payload. ([], g @ [''request'']))
             ?self (PInt 1) 0 5000 True [] = (Inl ValueError, [])"
    by (rule v1 [THEN conjunct1, rule_format]) simp
  have b: "async_set_preset (\<lambda>g. (True, g @ [''connect''])) (\<lambda>g code payload. ([], g @ [''request'']))
             ?self (PInt 2) 0 30 False [] = (Inl ValueError, [])"
    by (rule v2 [THEN conjunct1, rule_format]) simp
  have c: "\<exists>sent. fst (async_set_preset (\<lambda>g. (True, g @ [''connect'']))
              (\<lambda>g code payload. ([], g @ [''request''])) ?self (PInt 1) 0 2500 True []) = Inr sent"
    by (rule v1 [THEN conjunct2, rule_format, THEN conjunct2, rule_format]) simp_all
  from a b c show ?thesis by blast
qed

end
